theory Spec2Isabelle
  imports Main "HOL-Library.Word" "HOL-Library.AList"
begin

unbundle bit_operations_syntax

section \<open>Bytes, buffers, errors\<close>

text \<open>
  A \<^verbatim>\<open>*memory.Buffer\<close> is modelled by the bytes it holds (\<^verbatim>\<open>Bytes()\<close>, of length
  \<^verbatim>\<open>Len()\<close>); a pointer to a buffer is a \<open>buffer option\<close>, with \<open>None\<close> for Go's
  \<^verbatim>\<open>nil\<close>. Reference counts of buffers and the allocator \<^verbatim>\<open>mem\<close> are not modelled.
  Go's \<^verbatim>\<open>int\<close> and \<^verbatim>\<open>int64\<close> are modelled by \<open>int\<close>: the quantities are lengths and
  offsets of buffers held in memory, far below \<open>2^63\<close>.
\<close>

type_synonym byte = "8 word"
type_synonym buffer = "byte list"

text \<open>
  The error values of package \<^verbatim>\<open>ipc\<close> that writer.go returns, an error coming from a
  collaborator (sink, codec, dictionary collector), and \<^verbatim>\<open>fmt.Errorf("...: %w", err)\<close>
  as \<open>Wrap\<close> with the constant part of the format string.
\<close>

datatype error =
    errMaxRecursion
  | errBigArray
  | errInconsistentSchema
  | errDictReplacement
  | External string
  | Wrap string error

text \<open>
  A call that does not return \<^verbatim>\<open>nil\<close> returns an error, panics, or never returns
  (the worker fan-out of \<^verbatim>\<open>compressBodyBuffers\<close> can block for ever).
\<close>

datatype fault = Err error | Panic string | Deadlock

fun unwrap :: "error \<Rightarrow> error" where
  "unwrap (Wrap s e) = unwrap e"
| "unwrap e = e"

definition wrap :: "string \<Rightarrow> fault + 'a \<Rightarrow> fault + 'a" where
  "wrap s r = (case r of Inl (Err e) \<Rightarrow> Inl (Err (Wrap s e)) | _ \<Rightarrow> r)"

text \<open>Go's indexing \<^verbatim>\<open>xs[i]\<close> and slicing \<^verbatim>\<open>xs[lo:hi]\<close> panic out of range.\<close>

definition index :: "'a list \<Rightarrow> int \<Rightarrow> fault + 'a" where
  "index xs i =
     (if 0 \<le> i \<and> i < int (length xs) then Inr (xs ! nat i)
      else Inl (Panic ''index out of range''))"

definition slice :: "'a list \<Rightarrow> int \<Rightarrow> int \<Rightarrow> fault + 'a list" where
  "slice xs lo hi =
     (if 0 \<le> lo \<and> lo \<le> hi \<and> hi \<le> int (length xs)
      then Inr (take (nat (hi - lo)) (drop (nat lo) xs))
      else Inl (Panic ''slice bounds out of range''))"

text \<open>\<^verbatim>\<open>b.Len()\<close> and \<^verbatim>\<open>b.Bytes()\<close> dereference \<^verbatim>\<open>b\<close>: on \<^verbatim>\<open>nil\<close> they panic.\<close>

definition deref :: "buffer option \<Rightarrow> fault + buffer" where
  "deref b = (case b of None \<Rightarrow> Inl (Panic ''nil pointer dereference'') | Some bs \<Rightarrow> Inr bs)"

text \<open>Go's integer division truncates towards zero.\<close>

definition quot :: "int \<Rightarrow> int \<Rightarrow> int" where
  "quot a b = sgn a * sgn b * (\<bar>a\<bar> div \<bar>b\<bar>)"

definition MaxInt32 :: int where
  "MaxInt32 = 2 ^ 31 - 1"

subsection \<open>Utilities of packages bitutil, memory and arrow\<close>

text \<open>
  Modelled from the spec: \<^verbatim>\<open>paddedLength\<close> (package ipc, not in writer.go),
  \<open>padded_length(n, align) = ceil(n / align) * align\<close>. The alignment constant
  \<^verbatim>\<open>kArrowAlignment\<close> is not in writer.go either; it is the parameter \<open>K\<close> of every
  function that uses it.
\<close>

definition paddedLength :: "int \<Rightarrow> int \<Rightarrow> int" where
  "paddedLength nbytes alignment = quot (nbytes + alignment - 1) alignment * alignment"

text \<open>Modelled from the spec: \<^verbatim>\<open>bitutil.BytesForBits\<close>, \<open>bytes_for_bits(n) = ceil(n / 8)\<close>.\<close>

definition BytesForBits :: "int \<Rightarrow> int" where
  "BytesForBits bits = (bits + 7) div 8"

text \<open>
  Modelled from the spec: \<^verbatim>\<open>bitutil.CeilByte64\<close> rounds up to the next 8-byte boundary
  (``the padding needed to reach the next 8-byte boundary''), and
  \<^verbatim>\<open>bitutil.IsMultipleOf8\<close> tests for a multiple of 8.
\<close>

definition CeilByte64 :: "int \<Rightarrow> int" where
  "CeilByte64 sz = (sz + 7) div 8 * 8"

definition IsMultipleOf8 :: "int \<Rightarrow> bool" where
  "IsMultipleOf8 v = (v mod 8 = 0)"

definition minI64 :: "int \<Rightarrow> int \<Rightarrow> int" where
  "minI64 a b = (if a < b then a else b)"

text \<open>
  Modelled from the spec: \<^verbatim>\<open>memory.NewResizableBuffer(mem)\<close> followed by
  \<^verbatim>\<open>Resize(n)\<close> gives a fresh buffer of \<open>n\<close> zero bytes (``allocate a zeroed bitmap of the
  padded length'').
\<close>

definition NewResizableBuffer :: "int \<Rightarrow> buffer" where
  "NewResizableBuffer n = replicate (nat n) 0"

text \<open>
  Bit \<open>i\<close> of a bitmap, least-significant bit first within each byte (glossary,
  ``validity bitmap''); a bit beyond the bytes reads as unset.
\<close>

definition get_bit :: "buffer \<Rightarrow> nat \<Rightarrow> bool" where
  "get_bit bs i = (i div 8 < length bs \<and> bit (bs ! (i div 8)) (i mod 8))"

text \<open>
  Modelled from the spec: \<^verbatim>\<open>bitutil.CopyBitmap\<close>,
  \<open>copy_bitmap(src, src_bit_offset, n_bits, dst, dst_bit_offset)\<close>, a bit-level copy of
  \<open>n_bits\<close> bits; the other bits of \<open>dst\<close> stay. Reading or writing beyond the bytes of
  \<open>src\<close> or \<open>dst\<close> is Go's out-of-range panic.
\<close>

definition CopyBitmap :: "buffer \<Rightarrow> int \<Rightarrow> int \<Rightarrow> buffer \<Rightarrow> int \<Rightarrow> fault + buffer" where
  "CopyBitmap src srcOffset nbits dst dstOffset =
     (if nbits = 0 then Inr dst
      else if srcOffset < 0 \<or> nbits < 0 \<or> dstOffset < 0
              \<or> int (length src) < BytesForBits (srcOffset + nbits)
              \<or> int (length dst) < BytesForBits (dstOffset + nbits)
      then Inl (Panic ''index out of range'')
      else Inr (map (\<lambda>j. horner_sum of_bool 2
                   (map (\<lambda>k. let i = int (8 * j + k) in
                              if dstOffset \<le> i \<and> i < dstOffset + nbits
                              then get_bit src (nat (srcOffset + (i - dstOffset)))
                              else get_bit dst (8 * j + k)) [0..<8]))
                [0..<length dst]))"

text \<open>
  \<^verbatim>\<open>arrow.Int32Traits.CastFromBytes\<close> reads a byte slice as little-endian \<^verbatim>\<open>int32\<close>
  values (trailing bytes that do not fill a value are not part of the result);
  \<open>CastToBytes\<close> is the bytes of a buffer written through such a view.
\<close>

definition le32 :: "byte \<Rightarrow> byte \<Rightarrow> byte \<Rightarrow> byte \<Rightarrow> 32 word" where
  "le32 a b c d = ucast a OR push_bit 8 (ucast b) OR push_bit 16 (ucast c) OR push_bit 24 (ucast d)"

fun CastFromBytes :: "buffer \<Rightarrow> 32 word list" where
  "CastFromBytes (a # b # c # d # rest) = le32 a b c d # CastFromBytes rest"
| "CastFromBytes _ = []"

definition bytes_of_int32 :: "32 word \<Rightarrow> buffer" where
  "bytes_of_int32 w = [ucast w, ucast (drop_bit 8 w), ucast (drop_bit 16 w), ucast (drop_bit 24 w)]"

definition CastToBytes :: "32 word list \<Rightarrow> buffer" where
  "CastToBytes ws = concat (map bytes_of_int32 ws)"

definition BytesRequired :: "int \<Rightarrow> int" where
  "BytesRequired n = 4 * n"

section \<open>Arrays\<close>

text \<open>
  The type of an array, as far as \<^verbatim>\<open>visit\<close> distinguishes types: the cases of its type
  switch, with the bit width of a fixed-width type, the list size of a fixed-size list,
  the index type of a dictionary type and the storage type of an extension type.
  \<open>UNION\<close> stands for the types the switch has no case for.
\<close>

datatype dtype =
    NULL
  | BOOL
  | FIXED_WIDTH int
  | BINARY
  | STRING
  | STRUCT
  | MAP
  | LIST
  | FIXED_SIZE_LIST int
  | DICTIONARY dtype
  | EXTENSION dtype
  | UNION

text \<open>
  An \<^verbatim>\<open>arrow.Array\<close> with what its accessors return: \<^verbatim>\<open>DataType()\<close>, \<^verbatim>\<open>Len()\<close>,
  \<^verbatim>\<open>NullN()\<close>, \<^verbatim>\<open>Data().Offset()\<close>, \<^verbatim>\<open>Data().Buffers()\<close>, and the child arrays as the
  array hands them out (\<^verbatim>\<open>Field(i)\<close> of a struct, \<^verbatim>\<open>ListValues()\<close> of a list, map or
  fixed-size list; \<^verbatim>\<open>Data().Children()\<close> for \<^verbatim>\<open>hasNestedDict\<close>).
\<close>

datatype array =
  Array (DataType: dtype) (Len: int) (NullN: int) (Offset: int)
        (Buffers: "buffer option list") (Children: "array list")

definition is_extension :: "dtype \<Rightarrow> bool" where
  "is_extension t = (case t of EXTENSION _ \<Rightarrow> True | _ \<Rightarrow> False)"

definition is_dictionary :: "dtype \<Rightarrow> bool" where
  "is_dictionary t = (case t of DICTIONARY _ \<Rightarrow> True | _ \<Rightarrow> False)"

text \<open>
  Modelled from the spec: \<^verbatim>\<open>Storage()\<close> of an extension array and \<^verbatim>\<open>Indices()\<close> of a
  dictionary array (package array) are the same data seen at the storage type and at
  the integer index type.
\<close>

definition Storage :: "array \<Rightarrow> array" where
  "Storage arr =
     (case DataType arr of
        EXTENSION st \<Rightarrow> Array st (Len arr) (NullN arr) (Offset arr) (Buffers arr) (Children arr)
      | _ \<Rightarrow> arr)"

definition Indices :: "array \<Rightarrow> array" where
  "Indices arr =
     (case DataType arr of
        DICTIONARY it \<Rightarrow> Array it (Len arr) (NullN arr) (Offset arr) (Buffers arr) (Children arr)
      | _ \<Rightarrow> arr)"

text \<open>
  Modelled from the spec: \<^verbatim>\<open>array.NewSlice(arr, i, j)\<close> (package array) is the zero-copy
  slice \<open>[i, j)\<close> of \<open>arr\<close>: the same buffers and children, the logical offset advanced
  by \<open>i\<close>, the length \<open>j - i\<close>; it panics when the range is not within the array. The
  null count of the slice is the number of unset validity bits in its range (none when
  the array has no nulls or no validity bitmap).
\<close>

definition count_unset :: "buffer \<Rightarrow> int \<Rightarrow> int \<Rightarrow> int" where
  "count_unset bs off n =
     int (length (filter (\<lambda>i. \<not> get_bit bs (nat off + i)) [0..<nat n]))"

definition NewSlice :: "array \<Rightarrow> int \<Rightarrow> int \<Rightarrow> fault + array" where
  "NewSlice arr i j =
     (if j > Len arr \<or> i > j \<or> Offset arr + i > Offset arr + Len arr
      then Inl (Panic ''arrow/array: index out of range'')
      else Inr (Array (DataType arr) (j - i)
                  (if NullN arr = 0 then 0
                   else case Buffers arr of
                          Some bm # _ \<Rightarrow> count_unset bm (Offset arr + i) (j - i)
                        | _ \<Rightarrow> 0)
                  (Offset arr + i) (Buffers arr) (Children arr)))"

text \<open>
  Modelled from the spec: the accessors of variable-width arrays (package array).
  \<^verbatim>\<open>Offsets()\<close> is the offsets buffer read as \<^verbatim>\<open>int32\<close> values; \<^verbatim>\<open>ValueOffset(0)\<close> is
  \<open>src_offsets[offset]\<close>; \<^verbatim>\<open>ValueBytes()\<close> is the data between \<open>src_offsets[offset]\<close> and
  \<open>src_offsets[offset + len]\<close> (``Total data bytes = src_offsets[offset+len] -
  src_offsets[offset]'').
\<close>

definition Offsets :: "array \<Rightarrow> 32 word list" where
  "Offsets arr =
     (case Buffers arr of
        _ # Some b # _ \<Rightarrow> CastFromBytes b
      | _ \<Rightarrow> [])"

definition ValueOffset :: "array \<Rightarrow> int \<Rightarrow> fault + int" where
  "ValueOffset arr i = map_sum id sint (index (Offsets arr) (Offset arr + i))"

definition ValueBytes :: "array \<Rightarrow> fault + buffer" where
  "ValueBytes arr =
     (case index (Offsets arr) (Offset arr) of
        Inl f \<Rightarrow> Inl f
      | Inr b \<Rightarrow>
          (case index (Offsets arr) (Offset arr + Len arr) of
             Inl f \<Rightarrow> Inl f
           | Inr e \<Rightarrow>
               slice (case Buffers arr of _ # _ # Some v # _ \<Rightarrow> v | _ \<Rightarrow> [])
                     (sint b) (sint e)))"

section \<open>Payloads and the record encoder\<close>

record fieldMetadata =
  fm_Len :: int
  fm_Nulls :: int
  fm_Offset :: int

record bufferMetadata =
  bm_Offset :: int
  bm_Len :: int

datatype MessageType = MessageNone | MessageSchema | MessageDictionaryBatch | MessageRecordBatch

text \<open>
  Modelled from the spec: the header builders \<^verbatim>\<open>writeRecordMessage\<close>,
  \<^verbatim>\<open>writeDictionaryMessage\<close> and \<^verbatim>\<open>writeSchemaMessage\<close> (package ipc, not in writer.go)
  produce the header ``from \<open>(nrows, body_size, field_metadata, buffer_metadata, codec)\<close>
  and \<open>(id, isDelta, ...)\<close> respectively''. The flatbuffer bytes are not modelled: a
  header is the tuple it is built from.
\<close>

type_synonym schema = "(string \<times> dtype) list"

datatype header =
    RecordMessage int int "fieldMetadata list" "bufferMetadata list" int
  | DictionaryMessage int bool int int "fieldMetadata list" "bufferMetadata list" int
  | SchemaMessage "schema option"

record Payload =
  msg :: MessageType
  pmeta :: "header option"
  body :: "buffer option list"
  psize :: int

definition new_Payload :: "MessageType \<Rightarrow> Payload" where
  "new_Payload m = \<lparr>msg = m, pmeta = None, body = [], psize = 0\<rparr>"

record recordEncoder =
  fields' :: "fieldMetadata list"
  meta :: "bufferMetadata list"
  depth :: int
  start :: int
  allow64b :: bool
  codec :: int
  compressNP :: int

definition newRecordEncoder :: "int \<Rightarrow> int \<Rightarrow> bool \<Rightarrow> int \<Rightarrow> int \<Rightarrow> recordEncoder" where
  "newRecordEncoder startOffset maxDepth allow64b' codec' compressNP' =
     \<lparr>fields' = [], meta = [], depth = maxDepth, start = startOffset,
      allow64b = allow64b', codec = codec', compressNP = compressNP'\<rparr>"

definition reset :: "recordEncoder \<Rightarrow> recordEncoder" where
  "reset w = w\<lparr>start := 0, fields' := []\<rparr>"

section \<open>The array visitor\<close>

definition bind :: "fault + 'a \<Rightarrow> ('a \<Rightarrow> fault + 'b) \<Rightarrow> fault + 'b" where
  "bind m f = (case m of Inl e \<Rightarrow> Inl e | Inr v \<Rightarrow> f v)"

definition needTruncate :: "int \<Rightarrow> buffer option \<Rightarrow> int \<Rightarrow> bool" where
  "needTruncate offset buf minLength =
     (case buf of
        None \<Rightarrow> False
      | Some b \<Rightarrow> offset \<noteq> 0 \<or> minLength < int (length b))"

definition newTruncatedBitmap :: "int \<Rightarrow> int \<Rightarrow> int \<Rightarrow> buffer option \<Rightarrow> fault + buffer option" where
  "newTruncatedBitmap K offset len input =
     (case input of
        None \<Rightarrow> Inr None
      | Some inp \<Rightarrow>
          let minLength = paddedLength (BytesForBits len) K in
          if offset \<noteq> 0 \<or> minLength < int (length inp)
          then map_sum id Some (CopyBitmap inp offset len (NewResizableBuffer minLength) 0)
          else Inr (Some inp))"

definition getZeroBasedValueOffsets :: "array \<Rightarrow> fault + buffer option" where
  "getZeroBasedValueOffsets arr =
     bind (index (Buffers arr) 1) (\<lambda>voffsets.
       let offsetBytesNeeded = BytesRequired (Len arr + 1) in
       bind (if Offset arr \<noteq> 0 then Inr True
             else map_sum id (\<lambda>b. offsetBytesNeeded < int (length b)) (deref voffsets))
         (\<lambda>shift.
            bind (if shift
                  then bind (deref voffsets) (\<lambda>src.
                         bind (slice (CastFromBytes src) (Offset arr) (Offset arr + Len arr + 1))
                           (\<lambda>offsets.
                              bind (index offsets 0) (\<lambda>startOffset.
                                Inr (Some (CastToBytes (map (\<lambda>off. off - startOffset) offsets))))))
                  else Inr voffsets)
              (\<lambda>voffsets'.
                 case voffsets' of
                   None \<Rightarrow> Inr None
                 | Some b \<Rightarrow> if length b = 0 then Inr None else Inr (Some b))))"

text \<open>The validity bitmap that \<^verbatim>\<open>visit\<close> appends for an array that is not of type Null.\<close>

definition validity_bitmap :: "int \<Rightarrow> array \<Rightarrow> fault + buffer option" where
  "validity_bitmap K arr =
     (if NullN arr = 0 then Inr None
      else if NullN arr = Len arr
      then Inr (Some (NewResizableBuffer (paddedLength (BytesForBits (Len arr)) K)))
      else bind (index (Buffers arr) 0) (newTruncatedBitmap K (Offset arr) (Len arr)))"

text \<open>The buffers that the cases of the type switch without child arrays append.\<close>

definition boolean_buffers :: "int \<Rightarrow> array \<Rightarrow> fault + buffer option list" where
  "boolean_buffers K arr =
     (if Len arr \<noteq> 0
      then bind (index (Buffers arr) 1) (\<lambda>b.
             bind (newTruncatedBitmap K (Offset arr) (Len arr) b) (\<lambda>bitm. Inr [bitm]))
      else Inr [None])"

definition fixed_width_buffers :: "int \<Rightarrow> int \<Rightarrow> array \<Rightarrow> fault + buffer option list" where
  "fixed_width_buffers K bitWidth arr =
     bind (index (Buffers arr) 1) (\<lambda>values.
       let arrLen = Len arr;
           typeWidth = quot bitWidth 8;
           minLength = paddedLength (arrLen * typeWidth) K
       in if needTruncate (Offset arr) values minLength
          then bind (deref values) (\<lambda>v.
                 let offset = Offset arr * typeWidth;
                     len = minI64 (CeilByte64 (arrLen * typeWidth)) (int (length v) - offset)
                 in bind (slice v offset (offset + len)) (\<lambda>bs. Inr [Some bs]))
          else Inr [values])"

definition binary_buffers :: "int \<Rightarrow> array \<Rightarrow> fault + buffer option list" where
  "binary_buffers K arr =
     bind (wrap ''could not retrieve zero-based value offsets from'' (getZeroBasedValueOffsets arr))
       (\<lambda>voffsets.
          bind (index (Buffers arr) 2) (\<lambda>values.
            bind (if voffsets \<noteq> None
                  then map_sum id (\<lambda>b. int (length b)) (ValueBytes arr)
                  else Inr 0)
              (\<lambda>totalDataBytes.
                 bind (if needTruncate (Offset arr) values totalDataBytes
                       then bind (ValueOffset arr 0) (\<lambda>beg.
                              let len = minI64 (paddedLength totalDataBytes K) totalDataBytes
                              in bind (deref values) (\<lambda>v.
                                   map_sum id Some (slice v beg (beg + len))))
                       else Inr values)
                   (\<lambda>values'. Inr [voffsets, values']))))"

text \<open>The child array that the List and Map cases visit, and that of a fixed-size list.\<close>

definition list_values :: "array \<Rightarrow> buffer option \<Rightarrow> fault + array" where
  "list_values arr voffsets =
     bind (index (Children arr) 0) (\<lambda>values.
       bind (if voffsets \<noteq> None
             then bind (index (Offsets arr) 0) (\<lambda>o0.
                    bind (index (Offsets arr) (Len arr)) (\<lambda>on.
                      Inr (sint o0, sint on - sint o0)))
             else Inr (0, 0))
         (\<lambda>(values_offset, values_length).
            if length (Offsets arr) \<noteq> 0 \<or> values_length < Len values
            then NewSlice values values_offset values_length
            else Inr values))"

definition fixed_size_list_values :: "int \<Rightarrow> array \<Rightarrow> fault + array" where
  "fixed_size_list_values n arr =
     bind (index (Children arr) 0) (\<lambda>values.
       NewSlice values (Offset arr * n) ((Offset arr + Len arr) * n))"

fun type_size :: "dtype \<Rightarrow> nat" where
  "type_size (DICTIONARY t) = Suc (type_size t)"
| "type_size (EXTENSION t) = Suc (type_size t)"
| "type_size _ = 0"

fun weight :: "array \<Rightarrow> nat" where
  "weight (Array t n nl off bufs cs) = Suc (type_size t + sum_list (map weight cs))"

lemma weight_Storage: "is_extension (DataType arr) \<Longrightarrow> weight (Storage arr) < weight arr"
  by (cases arr) (auto simp: is_extension_def Storage_def split: dtype.splits)

lemma weight_Indices: "is_dictionary (DataType arr) \<Longrightarrow> weight (Indices arr) < weight arr"
  by (cases arr) (auto simp: is_dictionary_def Indices_def split: dtype.splits)

lemma weight_NewSlice: "NewSlice a i j = Inr b \<Longrightarrow> weight b = weight a"
  by (cases a) (auto simp: NewSlice_def split: if_splits)

lemma weight_child: "c \<in> set (Children arr) \<Longrightarrow> weight c < weight arr"
proof (cases arr)
  case (Array t n nl off bufs cs)
  assume "c \<in> set (Children arr)"
  with Array have "c \<in> set cs" by simp
  then have "weight c \<le> sum_list (map weight cs)"
    by (induction cs) auto
  with Array show ?thesis by simp
qed

lemma weight_index_child: "index (Children arr) i = Inr c \<Longrightarrow> weight c < weight arr"
  by (rule weight_child) (auto simp: index_def split: if_splits)

lemma weight_slice_child:
  "index (Children arr) i = Inr x \<Longrightarrow> NewSlice x a b = Inr c \<Longrightarrow> weight c < weight arr"
  by (simp add: weight_NewSlice weight_index_child)

lemma weight_list_values: "list_values arr v = Inr c \<Longrightarrow> weight c < weight arr"
  by (auto simp: list_values_def bind_def split: sum.splits if_splits prod.splits
           intro: weight_index_child weight_slice_child)

lemma weight_fixed_size_list_values:
  "fixed_size_list_values n arr = Inr c \<Longrightarrow> weight c < weight arr"
  by (auto simp: fixed_size_list_values_def bind_def split: sum.splits
           intro: weight_slice_child)

function visit :: "int \<Rightarrow> recordEncoder \<Rightarrow> Payload \<Rightarrow> array \<Rightarrow> fault + (recordEncoder \<times> Payload)"
  and visit_fields ::
    "int \<Rightarrow> recordEncoder \<Rightarrow> Payload \<Rightarrow> array list \<Rightarrow> fault + (recordEncoder \<times> Payload)"
where
  "visit K w p arr =
     (if depth w \<le> 0 then Inl (Err errMaxRecursion)
      else if \<not> allow64b w \<and> Len arr > MaxInt32 then Inl (Err errBigArray)
      else if is_extension (DataType arr)
      then wrap ''failed visiting storage of for array'' (visit K w p (Storage arr))
      else if is_dictionary (DataType arr)
      then visit K w p (Indices arr)
      else
        let w1 = w\<lparr>fields' := fields' w @
                     [\<lparr>fm_Len = Len arr, fm_Nulls = NullN arr, fm_Offset = 0\<rparr>]\<rparr>
        in if DataType arr = NULL then Inr (w1, p)
           else
             (case validity_bitmap K arr of
                Inl f \<Rightarrow> Inl f
              | Inr bitmap \<Rightarrow>
                  let p1 = p\<lparr>body := body p @ [bitmap]\<rparr> in
                  (case DataType arr of
                     NULL \<Rightarrow> Inr (w1, p1)
                   | BOOL \<Rightarrow>
                       (case boolean_buffers K arr of
                          Inl f \<Rightarrow> Inl f
                        | Inr bs \<Rightarrow> Inr (w1, p1\<lparr>body := body p1 @ bs\<rparr>))
                   | FIXED_WIDTH bitWidth \<Rightarrow>
                       (case fixed_width_buffers K bitWidth arr of
                          Inl f \<Rightarrow> Inl f
                        | Inr bs \<Rightarrow> Inr (w1, p1\<lparr>body := body p1 @ bs\<rparr>))
                   | BINARY \<Rightarrow>
                       (case binary_buffers K arr of
                          Inl f \<Rightarrow> Inl f
                        | Inr bs \<Rightarrow> Inr (w1, p1\<lparr>body := body p1 @ bs\<rparr>))
                   | STRING \<Rightarrow>
                       (case binary_buffers K arr of
                          Inl f \<Rightarrow> Inl f
                        | Inr bs \<Rightarrow> Inr (w1, p1\<lparr>body := body p1 @ bs\<rparr>))
                   | STRUCT \<Rightarrow>
                       (case visit_fields K (w1\<lparr>depth := depth w1 - 1\<rparr>) p1 (Children arr) of
                          Inl f \<Rightarrow> Inl f
                        | Inr (w2, p2) \<Rightarrow> Inr (w2\<lparr>depth := depth w2 + 1\<rparr>, p2))
                   | MAP \<Rightarrow>
                       (case wrap ''could not retrieve zero-based value offsets for array''
                               (getZeroBasedValueOffsets arr) of
                          Inl f \<Rightarrow> Inl f
                        | Inr voffsets \<Rightarrow>
                            (case list_values arr voffsets of
                               Inl f \<Rightarrow> Inl f
                             | Inr values \<Rightarrow>
                                 (case wrap ''could not visit list element for array''
                                         (visit K (w1\<lparr>depth := depth w1 - 1\<rparr>)
                                            (p1\<lparr>body := body p1 @ [voffsets]\<rparr>) values) of
                                    Inl f \<Rightarrow> Inl f
                                  | Inr (w2, p2) \<Rightarrow> Inr (w2\<lparr>depth := depth w2 + 1\<rparr>, p2))))
                   | LIST \<Rightarrow>
                       (case wrap ''could not retrieve zero-based value offsets for array''
                               (getZeroBasedValueOffsets arr) of
                          Inl f \<Rightarrow> Inl f
                        | Inr voffsets \<Rightarrow>
                            (case list_values arr voffsets of
                               Inl f \<Rightarrow> Inl f
                             | Inr values \<Rightarrow>
                                 (case wrap ''could not visit list element for array''
                                         (visit K (w1\<lparr>depth := depth w1 - 1\<rparr>)
                                            (p1\<lparr>body := body p1 @ [voffsets]\<rparr>) values) of
                                    Inl f \<Rightarrow> Inl f
                                  | Inr (w2, p2) \<Rightarrow> Inr (w2\<lparr>depth := depth w2 + 1\<rparr>, p2))))
                   | FIXED_SIZE_LIST n \<Rightarrow>
                       (case fixed_size_list_values n arr of
                          Inl f \<Rightarrow> Inl f
                        | Inr values \<Rightarrow>
                            (case wrap ''could not visit list element for array''
                                    (visit K (w1\<lparr>depth := depth w1 - 1\<rparr>) p1 values) of
                               Inl f \<Rightarrow> Inl f
                             | Inr (w2, p2) \<Rightarrow> Inr (w2\<lparr>depth := depth w2 + 1\<rparr>, p2)))
                   | _ \<Rightarrow> Inl (Panic ''arrow/ipc: unknown array''))))"
| "visit_fields K w p [] = Inr (w, p)"
| "visit_fields K w p (c # cs) =
     (case wrap ''could not visit field of struct-array'' (visit K w p c) of
        Inl f \<Rightarrow> Inl f
      | Inr (w', p') \<Rightarrow> visit_fields K w' p' cs)"
  by pat_completeness auto

termination
proof (relation "measure (\<lambda>x. case x of
          Inl (K, w, p, arr) \<Rightarrow> 2 * weight arr
        | Inr (K, w, p, cs) \<Rightarrow> 2 * sum_list (map weight cs) + 1)", goal_cases)
  case 1
  show ?case by simp
next
  case 2
  then show ?case by (simp add: weight_Storage)
next
  case 3
  then show ?case by (simp add: weight_Indices)
next
  case (4 K w p arr)
  show ?case by (cases arr) simp
next
  case 5
  then show ?case by (simp add: weight_list_values)
next
  case 6
  then show ?case by (simp add: weight_list_values)
next
  case 7
  then show ?case by (simp add: weight_fixed_size_list_values)
next
  case 8
  show ?case by simp
next
  case (9 K w p c cs)
  show ?case by (cases c) simp
qed

declare visit.simps [simp del]

section \<open>Body compression and buffer layout\<close>

text \<open>
  Modelled from the spec: \<^verbatim>\<open>getCompressor\<close> and the \<^verbatim>\<open>compressor\<close> interface (package
  ipc, not in writer.go). A codec turns the bytes of one buffer into compressed bytes
  or returns an error (from \<^verbatim>\<open>Write\<close> or \<^verbatim>\<open>Close\<close>); \<^verbatim>\<open>getCompressor\<close> is a parameter.
  A compressed buffer is \<open>uint64_le(uncompressed_length) || compressed_bytes\<close>.
\<close>

type_synonym compressor = "buffer \<Rightarrow> error + buffer"

definition uint64_le :: "int \<Rightarrow> buffer" where
  "uint64_le n = map (\<lambda>i. ucast (drop_bit (8 * i) (word_of_int n :: 64 word))) [0..<8]"

text \<open>The closure \<^verbatim>\<open>compress\<close> of \<^verbatim>\<open>compressBodyBuffers\<close>, on the buffer at one index.\<close>

definition compress :: "compressor \<Rightarrow> buffer option \<Rightarrow> error + buffer option" where
  "compress c b =
     (case b of
        None \<Rightarrow> Inr None
      | Some bs \<Rightarrow>
          if length bs = 0 then Inr (Some bs)
          else (case c bs of
                  Inl e \<Rightarrow> Inl e
                | Inr z \<Rightarrow> Inr (Some (uint64_le (int (length bs)) @ z))))"

text \<open>The serial loop: it stops at the first error, the buffers before it rewritten.\<close>

fun compress_serial :: "compressor \<Rightarrow> buffer option list \<Rightarrow> error option \<times> buffer option list" where
  "compress_serial c [] = (None, [])"
| "compress_serial c (b # bs) =
     (case compress c b of
        Inl e \<Rightarrow> (Some e, b # bs)
      | Inr b' \<Rightarrow> (case compress_serial c bs of (r, bs') \<Rightarrow> (r, b' # bs')))"

text \<open>
  With \<^verbatim>\<open>compressNP \<le> 1\<close> the loop runs in the caller. Otherwise \<^verbatim>\<open>compressNP\<close> workers
  take the indices from a channel; the fan-out is modelled by its outcome. Each index is
  compressed once, so without an error every buffer is rewritten and the receive from
  the closed \<^verbatim>\<open>errch\<close> gives \<^verbatim>\<open>nil\<close>. A worker whose \<^verbatim>\<open>compress\<close> fails sends on the
  unbuffered \<^verbatim>\<open>errch\<close>, which is only received from after \<^verbatim>\<open>wg.Wait()\<close>: the worker never
  finishes, and neither does the call.
\<close>

definition compressBodyBuffers ::
  "(int \<Rightarrow> compressor) \<Rightarrow> recordEncoder \<Rightarrow> Payload \<Rightarrow> fault option \<times> Payload" where
  "compressBodyBuffers getCompressor w p =
     (case compress_serial (getCompressor (codec w)) (body p) of
        (r, bs) \<Rightarrow>
          if compressNP w \<le> 1 then (map_option Err r, p\<lparr>body := bs\<rparr>)
          else if r = None then (None, p\<lparr>body := bs\<rparr>)
          else (Some Deadlock, p\<lparr>body := bs\<rparr>))"

text \<open>The loop of \<^verbatim>\<open>encode\<close> that builds the buffer metadata, from offset \<open>offset\<close> on.\<close>

fun buffer_layout :: "int \<Rightarrow> buffer option list \<Rightarrow> bufferMetadata list \<times> int" where
  "buffer_layout offset [] = ([], offset)"
| "buffer_layout offset (buf # bufs) =
     (let sz = (case buf of None \<Rightarrow> 0 | Some b \<Rightarrow> int (length b));
          padding = (case buf of None \<Rightarrow> 0 | Some b \<Rightarrow> CeilByte64 sz - sz)
      in case buffer_layout (offset + sz + padding) bufs of
           (ms, offset') \<Rightarrow> (\<lparr>bm_Offset = offset, bm_Len = sz\<rparr> # ms, offset'))"

text \<open>An \<^verbatim>\<open>arrow.Record\<close>: its schema (possibly \<^verbatim>\<open>nil\<close>), its columns, its number of rows.\<close>

record Record =
  Schema :: "schema option"
  Columns :: "array list"
  NumRows :: int

fun encode_columns ::
  "int \<Rightarrow> recordEncoder \<Rightarrow> Payload \<Rightarrow> array list \<Rightarrow> fault + (recordEncoder \<times> Payload)" where
  "encode_columns K w p [] = Inr (w, p)"
| "encode_columns K w p (col # cols) =
     (case wrap ''arrow/ipc: could not encode column'' (visit K w p col) of
        Inl f \<Rightarrow> Inl f
      | Inr (w', p') \<Rightarrow> encode_columns K w' p' cols)"

text \<open>
  \<^verbatim>\<open>recordEncoder.encode\<close>. The value of \<^verbatim>\<open>w.compressBodyBuffers(p)\<close> is dropped by the
  source; only a call that never returns shows.
\<close>

definition encode ::
  "int \<Rightarrow> (int \<Rightarrow> compressor) \<Rightarrow> recordEncoder \<Rightarrow> Payload \<Rightarrow> Record
     \<Rightarrow> fault + (recordEncoder \<times> Payload)" where
  "encode K getCompressor w p rec =
     (case encode_columns K w p (Columns rec) of
        Inl f \<Rightarrow> Inl f
      | Inr (w1, p1) \<Rightarrow>
          (case (if codec w1 \<noteq> - 1 then compressBodyBuffers getCompressor w1 p1
                 else (None, p1)) of
             (r, p2) \<Rightarrow>
               if r = Some Deadlock then Inl Deadlock
               else
                 (case buffer_layout (start w1) (body p2) of
                    (ms, offset) \<Rightarrow>
                      let w2 = w1\<lparr>meta := ms\<rparr>;
                          p3 = p2\<lparr>psize := offset - start w2\<rparr>
                      in if \<not> IsMultipleOf8 (psize p3) then Inl (Panic ''not aligned'')
                         else Inr (w2, p3))))"

definition encodeMetadata :: "recordEncoder \<Rightarrow> Payload \<Rightarrow> int \<Rightarrow> Payload" where
  "encodeMetadata w p nrows =
     p\<lparr>pmeta := Some (RecordMessage nrows (psize p) (fields' w) (meta w) (codec w))\<rparr>"

definition Encode ::
  "int \<Rightarrow> (int \<Rightarrow> compressor) \<Rightarrow> recordEncoder \<Rightarrow> Payload \<Rightarrow> Record
     \<Rightarrow> fault + (recordEncoder \<times> Payload)" where
  "Encode K getCompressor w p rec =
     (case encode K getCompressor w p rec of
        Inl f \<Rightarrow> Inl f
      | Inr (w', p') \<Rightarrow> Inr (w', encodeMetadata w' p' (NumRows rec)))"

subsection \<open>The dictionary payload encoder\<close>

definition dict_encodeMetadata :: "recordEncoder \<Rightarrow> Payload \<Rightarrow> bool \<Rightarrow> int \<Rightarrow> int \<Rightarrow> Payload" where
  "dict_encodeMetadata d p isDelta id' nrows =
     p\<lparr>pmeta := Some (DictionaryMessage id' isDelta nrows (psize p) (fields' d) (meta d) (codec d))\<rparr>"

text \<open>
  \<^verbatim>\<open>dictEncoder.Encode\<close>: the dictionary as the one column, named \<^verbatim>\<open>dictionary\<close>, of a
  record of \<^verbatim>\<open>dict.Len()\<close> rows. The deferred function sets \<^verbatim>\<open>start\<close> to 0 again.
\<close>

definition dict_Encode ::
  "int \<Rightarrow> (int \<Rightarrow> compressor) \<Rightarrow> recordEncoder \<Rightarrow> Payload \<Rightarrow> int \<Rightarrow> bool \<Rightarrow> array
     \<Rightarrow> fault + (recordEncoder \<times> Payload)" where
  "dict_Encode K getCompressor d p id' isDelta dict =
     (let batch = \<lparr>Schema = Some [(''dictionary'', DataType dict)],
                   Columns = [dict], NumRows = Len dict\<rparr>
      in case encode K getCompressor (d\<lparr>start := 0\<rparr>) p batch of
           Inl f \<Rightarrow> Inl f
         | Inr (d', p') \<Rightarrow>
             Inr (d'\<lparr>start := 0\<rparr>, dict_encodeMetadata d' p' isDelta id' (NumRows batch)))"

section \<open>Payload writers\<close>

text \<open>
  The interface \<^verbatim>\<open>PayloadWriter\<close>: an object with its own state and the methods
  \<^verbatim>\<open>WritePayload\<close> and \<^verbatim>\<open>Close\<close> (writer.go never calls \<^verbatim>\<open>Start\<close>).
\<close>

record 's PayloadWriter =
  pw_state :: 's
  pw_WritePayload :: "'s \<Rightarrow> Payload \<Rightarrow> error option \<times> 's"
  pw_Close :: "'s \<Rightarrow> error option \<times> 's"

definition WritePayload :: "'s PayloadWriter \<Rightarrow> Payload \<Rightarrow> error option \<times> 's PayloadWriter" where
  "WritePayload q p =
     (case pw_WritePayload q (pw_state q) p of (e, s') \<Rightarrow> (e, q\<lparr>pw_state := s'\<rparr>))"

definition ClosePW :: "'s PayloadWriter \<Rightarrow> error option \<times> 's PayloadWriter" where
  "ClosePW q = (case pw_Close q (pw_state q) of (e, s') \<Rightarrow> (e, q\<lparr>pw_state := s'\<rparr>))"

text \<open>
  An \<^verbatim>\<open>io.Writer\<close>: an append-only byte sink, with an optional limit on the bytes it
  takes; a write that does not fit is cut short and returns an error.
\<close>

record Sink =
  out :: buffer
  limit :: "nat option"

definition sink_Write :: "Sink \<Rightarrow> buffer \<Rightarrow> (int \<times> error option) \<times> Sink" where
  "sink_Write s p =
     (case limit s of
        None \<Rightarrow> ((int (length p), None), s\<lparr>out := out s @ p\<rparr>)
      | Some l \<Rightarrow>
          let n = min (length p) (l - length (out s))
          in ((int n, if n < length p then Some (External ''short write'') else None),
              s\<lparr>out := out s @ take n p\<rparr>))"

record swriter =
  sw_w :: Sink
  sw_pos :: int

definition swriter_Write :: "swriter \<Rightarrow> buffer \<Rightarrow> (int \<times> error option) \<times> swriter" where
  "swriter_Write sw p =
     (case sink_Write (sw_w sw) p of
        ((n, err), s') \<Rightarrow> ((n, err), sw\<lparr>sw_w := s', sw_pos := sw_pos sw + n\<rparr>))"

text \<open>
  Modelled from the spec: the end-of-stream marker \<^verbatim>\<open>kEOS\<close> (package ipc, not in
  writer.go), ``four bytes \<open>0xFFFFFFFF\<close> followed by four zero bytes''.
\<close>

definition kEOS :: buffer where
  "kEOS = [0xFF, 0xFF, 0xFF, 0xFF, 0, 0, 0, 0]"

definition swriter_Close :: "swriter \<Rightarrow> error option \<times> swriter" where
  "swriter_Close sw = (case swriter_Write sw kEOS of ((n, err), sw') \<Rightarrow> (err, sw'))"

text \<open>
  Modelled from the spec: \<^verbatim>\<open>writeIPCPayload\<close> (package ipc, not in writer.go) writes the
  payload to the sink as the continuation marker, the metadata length, the metadata and
  the body. The framing is the parameter \<open>framing\<close>, the bytes of a payload on the wire.
\<close>

definition writeIPCPayload ::
  "(Payload \<Rightarrow> buffer) \<Rightarrow> swriter \<Rightarrow> Payload \<Rightarrow> (int \<times> error option) \<times> swriter" where
  "writeIPCPayload framing sw p = swriter_Write sw (framing p)"

definition swriter_WritePayload ::
  "(Payload \<Rightarrow> buffer) \<Rightarrow> swriter \<Rightarrow> Payload \<Rightarrow> error option \<times> swriter" where
  "swriter_WritePayload framing sw p =
     (case writeIPCPayload framing sw p of ((n, err), sw') \<Rightarrow> (err, sw'))"

definition new_swriter :: "(Payload \<Rightarrow> buffer) \<Rightarrow> Sink \<Rightarrow> swriter PayloadWriter" where
  "new_swriter framing s =
     \<lparr>pw_state = \<lparr>sw_w = s, sw_pos = 0\<rparr>,
      pw_WritePayload = swriter_WritePayload framing,
      pw_Close = swriter_Close\<rparr>"

section \<open>The dictionary tracker\<close>

text \<open>
  A handle on a dictionary array: the address of its \<^verbatim>\<open>Data()\<close>, which is what
  \<^verbatim>\<open>lastDict.Data() == pair.Dict.Data()\<close> compares, and the array. Reference counts
  are kept for these handles only, by address.
\<close>

record Dict =
  Data :: nat
  Arr :: array

type_synonym refcounts = "nat \<Rightarrow> int"

definition Retain :: "Dict \<Rightarrow> refcounts \<Rightarrow> refcounts" where
  "Retain d refs = refs (Data d := refs (Data d) + 1)"

definition Release :: "Dict \<Rightarrow> refcounts \<Rightarrow> refcounts" where
  "Release d refs = refs (Data d := refs (Data d) - 1)"

fun hasNestedDict :: "array \<Rightarrow> bool" where
  "hasNestedDict (Array t n nl off bufs cs) =
     (if is_dictionary t then True else (\<exists>c \<in> set cs. hasNestedDict c))"

text \<open>
  Modelled from the spec: \<^verbatim>\<open>array.ApproxEqual\<close> with \<^verbatim>\<open>WithNaNsEqual(true)\<close> (package
  array) is the parameter \<open>approx\<close>, ``lengths match and element-wise approximately
  equal (NaNs compare equal)''; \<^verbatim>\<open>array.SliceApproxEqual\<close> compares the two slices with
  it (``the first \<open>lastLen\<close> elements are approximately equal to the prior'').
\<close>

definition SliceApproxEqual ::
  "(array \<Rightarrow> array \<Rightarrow> bool) \<Rightarrow> array \<Rightarrow> int \<Rightarrow> int \<Rightarrow> array \<Rightarrow> int \<Rightarrow> int \<Rightarrow> fault + bool" where
  "SliceApproxEqual approx left lbeg lend right rbeg rend =
     bind (NewSlice left lbeg lend) (\<lambda>l.
       bind (NewSlice right rbeg rend) (\<lambda>r. Inr (approx l r)))"

text \<open>
  The decision of \<^verbatim>\<open>writeDictionaryPayloads\<close> for one dictionary (lines 201 to 222):
  \<open>Inr None\<close> is \<^verbatim>\<open>continue\<close>, \<open>Inr (Some deltaStart)\<close> goes on to emit, \<open>Inl\<close> returns.
\<close>

definition dict_decision ::
  "(array \<Rightarrow> array \<Rightarrow> bool) \<Rightarrow> bool \<Rightarrow> bool \<Rightarrow> Dict option \<Rightarrow> Dict \<Rightarrow> fault + int option" where
  "dict_decision approx isFileFormat emitDictDeltas lastDict dict =
     (case lastDict of
        None \<Rightarrow> Inr (Some 0)
      | Some lastD \<Rightarrow>
          if Data lastD = Data dict then Inr None
          else
            let newLen = Len (Arr dict); lastLen = Len (Arr lastD) in
            if lastLen = newLen \<and> approx (Arr lastD) (Arr dict) then Inr None
            else if isFileFormat then Inl (Err errDictReplacement)
            else if newLen > lastLen \<and> emitDictDeltas \<and> \<not> hasNestedDict (Arr dict)
            then bind (SliceApproxEqual approx (Arr lastD) 0 lastLen (Arr dict) 0 lastLen)
                   (\<lambda>eq. Inr (Some (if eq then lastLen else 0)))
            else Inr (Some 0))"

text \<open>
  The state that the loop of \<^verbatim>\<open>writeDictionaryPayloads\<close> changes: the map
  \<^verbatim>\<open>lastWrittenDicts\<close>, the payload writer \<^verbatim>\<open>pw\<close> (\<open>None\<close> for \<^verbatim>\<open>nil\<close>), the shared
  encoder and the reference counts.
\<close>

record 's tracker =
  lastWrittenDicts :: "(int \<times> Dict) list"
  pw :: "'s PayloadWriter option"
  encoder :: recordEncoder
  refs :: refcounts

text \<open>One iteration of the loop; \<open>Some f\<close> leaves the function, \<open>None\<close> goes on.\<close>

definition dict_step ::
  "int \<Rightarrow> (int \<Rightarrow> compressor) \<Rightarrow> (array \<Rightarrow> array \<Rightarrow> bool) \<Rightarrow> bool \<Rightarrow> bool
     \<Rightarrow> int \<times> Dict \<Rightarrow> 's tracker \<Rightarrow> fault option \<times> 's tracker" where
  "dict_step K getCompressor approx isFileFormat emitDictDeltas pair t =
     (let t0 = t\<lparr>encoder := reset (encoder t)\<rparr>;
          lastDict = map_of (lastWrittenDicts t0) (fst pair)
      in case dict_decision approx isFileFormat emitDictDeltas lastDict (snd pair) of
           Inl f \<Rightarrow> (Some f, t0)
         | Inr None \<Rightarrow> (None, t0)
         | Inr (Some deltaStart) \<Rightarrow>
             (case (if deltaStart > 0
                    then NewSlice (Arr (snd pair)) deltaStart (Len (Arr (snd pair)))
                    else Inr (Arr (snd pair))) of
                Inl f \<Rightarrow> (Some f, t0)
              | Inr dict \<Rightarrow>
                  (case dict_Encode K getCompressor (encoder t0)
                          (new_Payload MessageDictionaryBatch) (fst pair) (deltaStart > 0) dict of
                     Inl f \<Rightarrow> (Some f, t0)
                   | Inr (enc', data) \<Rightarrow>
                       (case pw t0 of
                          None \<Rightarrow> (Some (Panic ''nil pointer dereference''), t0\<lparr>encoder := enc'\<rparr>)
                        | Some q \<Rightarrow>
                            (case WritePayload q data of
                               (Some e, q') \<Rightarrow>
                                 (Some (Err e), t0\<lparr>encoder := enc', pw := Some q'\<rparr>)
                             | (None, q') \<Rightarrow>
                                 (None,
                                  t0\<lparr>encoder := enc', pw := Some q',
                                     lastWrittenDicts :=
                                       AList.update (fst pair) (snd pair) (lastWrittenDicts t0),
                                     refs := Retain (snd pair)
                                       ((case lastDict of None \<Rightarrow> id | Some l \<Rightarrow> Release l)
                                          (refs t0))\<rparr>))))))"

fun dict_loop ::
  "int \<Rightarrow> (int \<Rightarrow> compressor) \<Rightarrow> (array \<Rightarrow> array \<Rightarrow> bool) \<Rightarrow> bool \<Rightarrow> bool
     \<Rightarrow> (int \<times> Dict) list \<Rightarrow> 's tracker \<Rightarrow> fault option \<times> 's tracker" where
  "dict_loop K getCompressor approx isFileFormat emitDictDeltas [] t = (None, t)"
| "dict_loop K getCompressor approx isFileFormat emitDictDeltas (pair # pairs) t =
     (case dict_step K getCompressor approx isFileFormat emitDictDeltas pair t of
        (Some f, t') \<Rightarrow> (Some f, t')
      | (None, t') \<Rightarrow> dict_loop K getCompressor approx isFileFormat emitDictDeltas pairs t')"

text \<open>
  The collaborators that writer.go takes from other files: the alignment constant, the
  codecs, the array comparison, and \<^verbatim>\<open>dictutils.CollectDictionaries\<close>, which gives the
  dictionaries of a record with their ids from the mapper (the imported schema).
\<close>

record env =
  kArrowAlignment :: int
  getCompressor :: "int \<Rightarrow> compressor"
  ApproxEqual :: "array \<Rightarrow> array \<Rightarrow> bool"
  CollectDictionaries :: "Record \<Rightarrow> schema option \<Rightarrow> error + (int \<times> Dict) list"

text \<open>
  \<^verbatim>\<open>writeDictionaryPayloads\<close>. The deferred function releases every collected dictionary,
  however the function is left.
\<close>

definition writeDictionaryPayloads ::
  "env \<Rightarrow> Record \<Rightarrow> bool \<Rightarrow> bool \<Rightarrow> schema option \<Rightarrow> 's tracker \<Rightarrow> fault option \<times> 's tracker" where
  "writeDictionaryPayloads E batch isFileFormat emitDictDeltas mapper t =
     (case CollectDictionaries E batch mapper of
        Inl e \<Rightarrow> (Some (Err e), t)
      | Inr dictionaries \<Rightarrow>
          (case dict_loop (kArrowAlignment E) (getCompressor E) (ApproxEqual E)
                  isFileFormat emitDictDeltas dictionaries t of
             (r, t') \<Rightarrow> (r, t'\<lparr>refs := fold (\<lambda>d. Release (snd d)) dictionaries (refs t')\<rparr>)))"

section \<open>The stream writer\<close>

text \<open>The result of \<^verbatim>\<open>newConfig(opts...)\<close>, as far as the constructors read it.\<close>

record config =
  cfg_schema :: "schema option"
  cfg_codec :: int
  cfg_compressNP :: int

record 's Writer =
  w_pw :: "'s PayloadWriter option"
  started :: bool
  w_schema :: "schema option"
  mapper :: "schema option"
  w_codec :: int
  w_compressNP :: int
  w_lastWrittenDicts :: "(int \<times> Dict) list"
  w_emitDictDeltas :: bool

text \<open>The fields that a constructor does not name have Go's zero value.\<close>

definition NewWriterWithPayloadWriter :: "'s PayloadWriter \<Rightarrow> config \<Rightarrow> 's Writer" where
  "NewWriterWithPayloadWriter q cfg =
     \<lparr>w_pw = Some q, started = False, w_schema = cfg_schema cfg, mapper = None,
      w_codec = cfg_codec cfg, w_compressNP = cfg_compressNP cfg,
      w_lastWrittenDicts = [], w_emitDictDeltas = False\<rparr>"

definition NewWriter :: "(Payload \<Rightarrow> buffer) \<Rightarrow> Sink \<Rightarrow> config \<Rightarrow> swriter Writer" where
  "NewWriter framing s cfg =
     \<lparr>w_pw = Some (new_swriter framing s), started = False, w_schema = cfg_schema cfg,
      mapper = None, w_codec = cfg_codec cfg, w_compressNP = 0,
      w_lastWrittenDicts = [], w_emitDictDeltas = False\<rparr>"

text \<open>
  Modelled from the spec: \<^verbatim>\<open>payloadFromSchema\<close> (package ipc, not in writer.go), ``given
  a schema and a dictionary id mapper, returns an ordered list of Schema payloads (one
  in the typical case)''; and the nesting budget \<^verbatim>\<open>kMaxNestingDepth\<close>, ``default 64''.
\<close>

definition payloadFromSchema :: "schema option \<Rightarrow> Payload list" where
  "payloadFromSchema sc = [(new_Payload MessageSchema)\<lparr>pmeta := Some (SchemaMessage sc)\<rparr>]"

definition kMaxNestingDepth :: int where
  "kMaxNestingDepth = 64"

fun write_payloads ::
  "'s PayloadWriter option \<Rightarrow> Payload list \<Rightarrow> fault option \<times> 's PayloadWriter option" where
  "write_payloads q [] = (None, q)"
| "write_payloads q (d # ds) =
     (case q of
        None \<Rightarrow> (Some (Panic ''nil pointer dereference''), None)
      | Some q0 \<Rightarrow>
          (case WritePayload q0 d of
             (Some e, q') \<Rightarrow> (Some (Err e), Some q')
           | (None, q') \<Rightarrow> write_payloads (Some q') ds))"

text \<open>\<^verbatim>\<open>Writer.start\<close>.\<close>

definition Writer_start :: "'s Writer \<Rightarrow> fault option \<times> 's Writer" where
  "Writer_start wr =
     (let wr1 = wr\<lparr>started := True, mapper := w_schema wr, w_lastWrittenDicts := []\<rparr>
      in case write_payloads (w_pw wr1) (payloadFromSchema (w_schema wr1)) of
           (r, q) \<Rightarrow> (r, wr1\<lparr>w_pw := q\<rparr>))"

text \<open>
  \<^verbatim>\<open>Writer.Close\<close>. The last component of the result is the payload writer object after
  the call: the writer drops its reference (\<^verbatim>\<open>w.pw = nil\<close>), the object stays.
\<close>

definition Close ::
  "'s Writer \<Rightarrow> refcounts \<Rightarrow> fault option \<times> 's Writer \<times> refcounts \<times> 's PayloadWriter option" where
  "Close wr rc =
     (case (if \<not> started wr then Writer_start wr else (None, wr)) of
        (Some f, wr1) \<Rightarrow> (Some f, wr1, rc, w_pw wr1)
      | (None, wr1) \<Rightarrow>
          (case w_pw wr1 of
             None \<Rightarrow> (None, wr1, rc, None)
           | Some q \<Rightarrow>
               (case ClosePW q of
                  (Some e, q') \<Rightarrow>
                    (Some (Err (Wrap ''arrow/ipc: could not close payload writer'' e)),
                     wr1\<lparr>w_pw := Some q'\<rparr>, rc, Some q')
                | (None, q') \<Rightarrow>
                    (None, wr1\<lparr>w_pw := None\<rparr>,
                     fold (\<lambda>d. Release (snd d)) (w_lastWrittenDicts wr1) rc, Some q'))))"

text \<open>\<^verbatim>\<open>Writer.Write\<close>: its body, and the deferred \<^verbatim>\<open>recover\<close> around it.\<close>

definition Write_body ::
  "env \<Rightarrow> 's Writer \<Rightarrow> Record \<Rightarrow> refcounts \<Rightarrow> fault option \<times> 's Writer \<times> refcounts" where
  "Write_body E wr rec rc =
     (case (if \<not> started wr then Writer_start wr else (None, wr)) of
        (Some f, wr1) \<Rightarrow> (Some f, wr1, rc)
      | (None, wr1) \<Rightarrow>
          if Schema rec = None \<or> Schema rec \<noteq> w_schema wr1
          then (Some (Err errInconsistentSchema), wr1, rc)
          else
            let allow64b = True;
                enc = newRecordEncoder 0 kMaxNestingDepth allow64b (w_codec wr1) (w_compressNP wr1)
            in case writeDictionaryPayloads E rec False (w_emitDictDeltas wr1) (mapper wr1)
                      \<lparr>lastWrittenDicts = w_lastWrittenDicts wr1, pw = w_pw wr1,
                       encoder = enc, refs = rc\<rparr> of
                 (Some f, t) \<Rightarrow>
                   ((case f of
                       Err e \<Rightarrow> Some (Err (Wrap ''arrow/ipc: failure writing dictionary batches'' e))
                     | _ \<Rightarrow> Some f),
                    wr1\<lparr>w_lastWrittenDicts := lastWrittenDicts t, w_pw := pw t\<rparr>, refs t)
               | (None, t) \<Rightarrow>
                   let wr2 = wr1\<lparr>w_lastWrittenDicts := lastWrittenDicts t, w_pw := pw t\<rparr> in
                   (case wrap ''arrow/ipc: could not encode record to payload''
                           (Encode (kArrowAlignment E) (getCompressor E) (reset (encoder t))
                              (new_Payload MessageRecordBatch) rec) of
                      Inl f \<Rightarrow> (Some f, wr2, refs t)
                    | Inr (enc', data) \<Rightarrow>
                        (case w_pw wr2 of
                           None \<Rightarrow> (Some (Panic ''nil pointer dereference''), wr2, refs t)
                         | Some q \<Rightarrow>
                             (case WritePayload q data of
                                (e, q') \<Rightarrow> (map_option Err e, wr2\<lparr>w_pw := Some q'\<rparr>, refs t)))))"

definition recover ::
  "fault option \<times> 's Writer \<times> refcounts \<Rightarrow> fault option \<times> 's Writer \<times> refcounts" where
  "recover r =
     (case r of
        (Some (Panic pErr), x) \<Rightarrow>
          (Some (Err (External (''arrow/ipc: unknown error while writing: '' @ pErr))), x)
      | _ \<Rightarrow> r)"

definition Write ::
  "env \<Rightarrow> 's Writer \<Rightarrow> Record \<Rightarrow> refcounts \<Rightarrow> fault option \<times> 's Writer \<times> refcounts" where
  "Write E wr rec rc = recover (Write_body E wr rec rc)"

section \<open>Vocabulary of the properties\<close>

text \<open>
  What a successful visit leaves as it was, and what it only extends: every field of
  the encoder but \<^verbatim>\<open>fields\<close> is unchanged (the depth budget is restored), entries with
  offset 0 are appended to \<^verbatim>\<open>fields\<close>, and buffers are appended to the body.
\<close>

definition frame :: "recordEncoder \<Rightarrow> Payload \<Rightarrow> recordEncoder \<Rightarrow> Payload \<Rightarrow> bool" where
  "frame w p w' p' =
     (start w' = start w \<and> depth w' = depth w \<and> allow64b w' = allow64b w \<and> codec w' = codec w
      \<and> compressNP w' = compressNP w \<and> meta w' = meta w
      \<and> msg p' = msg p \<and> pmeta p' = pmeta p \<and> psize p' = psize p
      \<and> (\<exists>fs. fields' w' = fields' w @ fs \<and> (\<forall>f \<in> set fs. fm_Offset f = 0))
      \<and> (\<exists>bs. body p' = body p @ bs))"

text \<open>The length of a body buffer (0 for \<^verbatim>\<open>nil\<close>), as the layout loop of \<^verbatim>\<open>encode\<close> reads it.\<close>

definition buf_len :: "buffer option \<Rightarrow> int" where
  "buf_len b = (case b of None \<Rightarrow> 0 | Some bs \<Rightarrow> int (length bs))"

text \<open>
  The dictionary last written for an id, and what makes the tracker skip a dictionary:
  a last written dictionary for its id that is the same \<^verbatim>\<open>Data()\<close>, or has the same
  length and is approximately equal.
\<close>

definition prior :: "'s tracker \<Rightarrow> int \<Rightarrow> Dict option" where
  "prior t k = map_of (lastWrittenDicts t) k"

definition covered :: "(array \<Rightarrow> array \<Rightarrow> bool) \<Rightarrow> (int \<times> Dict) list \<Rightarrow> int \<times> Dict \<Rightarrow> bool" where
  "covered approx lwd pair =
     (case map_of lwd (fst pair) of
        None \<Rightarrow> False
      | Some l \<Rightarrow> Data l = Data (snd pair)
                 \<or> (Len (Arr l) = Len (Arr (snd pair)) \<and> approx (Arr l) (Arr (snd pair))))"

text \<open>The Schema payload that \<^verbatim>\<open>start\<close> hands to the payload writer.\<close>

definition schema_payload :: "schema option \<Rightarrow> Payload" where
  "schema_payload sc = \<lparr>msg = MessageSchema, pmeta = Some (SchemaMessage sc), body = [], psize = 0\<rparr>"

subsection \<open>Example inputs\<close>

text \<open>Scenario (a) of the spec: one \<^verbatim>\<open>int32\<close> column holding 1, 2, 3.\<close>

definition ex_int32 :: array where
  "ex_int32 = Array (FIXED_WIDTH 32) 3 0 0 [None, Some [1, 0, 0, 0, 2, 0, 0, 0, 3, 0, 0, 0]] []"

definition ex_record :: Record where
  "ex_record = \<lparr>Schema = Some [(''a'', FIXED_WIDTH 32)], Columns = [ex_int32], NumRows = 3\<rparr>"

text \<open>The encoder as \<^verbatim>\<open>Writer.Write\<close> builds and resets it, without a codec.\<close>

definition ex_encoder :: recordEncoder where
  "ex_encoder = reset (newRecordEncoder 0 kMaxNestingDepth True (- 1) 0)"

text \<open>A codec that stores the bytes as they are, and one whose \<^verbatim>\<open>Write\<close> fails.\<close>

definition store_codec :: "int \<Rightarrow> compressor" where
  "store_codec c b = Inr b"

definition failing_codec :: "int \<Rightarrow> compressor" where
  "failing_codec c b = Inl (External ''codec: write failed'')"

text \<open>
  A framing for the examples, one byte for the kind of message and the body buffers
  one after the other, without the header and the padding; a sink without a
  limit; an exact comparison of fixed-width arrays as the array comparison; a record
  without dictionaries.
\<close>

definition ex_framing :: "Payload \<Rightarrow> buffer" where
  "ex_framing p =
     (case msg p of
        MessageNone \<Rightarrow> 0
      | MessageSchema \<Rightarrow> 1
      | MessageDictionaryBatch \<Rightarrow> 2
      | MessageRecordBatch \<Rightarrow> 3)
     # concat (map (\<lambda>b. case b of None \<Rightarrow> [] | Some bs \<Rightarrow> bs) (body p))"

definition ex_sink :: Sink where
  "ex_sink = \<lparr>out = [], limit = None\<rparr>"

definition values_window :: "array \<Rightarrow> buffer" where
  "values_window a =
     (case DataType a of
        FIXED_WIDTH bw \<Rightarrow>
          (case Buffers a of
             [v, Some bs] \<Rightarrow> take (nat (Len a * quot bw 8)) (drop (nat (Offset a * quot bw 8)) bs)
           | _ \<Rightarrow> [])
      | _ \<Rightarrow> [])"

definition ex_approx :: "array \<Rightarrow> array \<Rightarrow> bool" where
  "ex_approx a b =
     (DataType a = DataType b \<and> Len a = Len b \<and> NullN a = NullN b
      \<and> values_window a = values_window b)"

definition ex_env :: "(int \<Rightarrow> compressor) \<Rightarrow> (int \<times> Dict) list \<Rightarrow> env" where
  "ex_env gc dicts =
     \<lparr>kArrowAlignment = 64, getCompressor = gc, ApproxEqual = ex_approx,
      CollectDictionaries = (\<lambda>r m. Inr dicts)\<rparr>"

definition ex_config :: "int \<Rightarrow> int \<Rightarrow> config" where
  "ex_config c np = \<lparr>cfg_schema = Schema ex_record, cfg_codec = c, cfg_compressNP = np\<rparr>"

text \<open>
  A payload writer that keeps the payloads it is given; dictionaries of \<^verbatim>\<open>int32\<close>
  values: 1, 2; the same values in another array; 1, 2, 3; and an empty one; a tracker
  with a given map of last written dictionaries.
\<close>

definition recorder :: "Payload list PayloadWriter" where
  "recorder = \<lparr>pw_state = [], pw_WritePayload = (\<lambda>s p. (None, s @ [p])), pw_Close = (\<lambda>s. (None, s))\<rparr>"

definition ex_dict_12 :: Dict where
  "ex_dict_12 = \<lparr>Data = 1, Arr = Array (FIXED_WIDTH 32) 2 0 0 [None, Some [1, 0, 0, 0, 2, 0, 0, 0]] []\<rparr>"

definition ex_dict_12_copy :: Dict where
  "ex_dict_12_copy = \<lparr>Data = 3, Arr = Array (FIXED_WIDTH 32) 2 0 0 [None, Some [1, 0, 0, 0, 2, 0, 0, 0]] []\<rparr>"

definition ex_dict_123 :: Dict where
  "ex_dict_123 = \<lparr>Data = 2, Arr = ex_int32\<rparr>"


definition ex_tracker :: "(int \<times> Dict) list \<Rightarrow> Payload list tracker" where
  "ex_tracker lwd = \<lparr>lastWrittenDicts = lwd, pw = Some recorder,
      encoder = newRecordEncoder 0 kMaxNestingDepth True (- 1) 0, refs = (\<lambda>a. 1)\<rparr>"


text \<open>A started writer that holds one last written dictionary.\<close>

definition ex_started :: "Payload list Writer" where
  "ex_started = (NewWriterWithPayloadWriter recorder (ex_config (- 1) 0))
                  \<lparr>started := True, w_lastWrittenDicts := [(0, ex_dict_12)]\<rparr>"

section \<open>Properties of the visitor and of the layout\<close>

lemma frame_refl: "frame w p w p"
  by (simp add: frame_def)

lemma frame_trans: "frame w p w1 p1 \<Longrightarrow> frame w1 p1 w2 p2 \<Longrightarrow> frame w p w2 p2"
  by (auto simp: frame_def)

lemma frame_step:
  "frame (w\<lparr>fields' := fields' w @ [\<lparr>fm_Len = n, fm_Nulls = k, fm_Offset = 0\<rparr>]\<rparr>) (p\<lparr>body := body p @ bs\<rparr>) w2 p2
   \<Longrightarrow> frame w p w2 p2"
  by (auto simp: frame_def)

lemma frame_step0:
  "frame (w\<lparr>fields' := fields' w @ [\<lparr>fm_Len = n, fm_Nulls = k, fm_Offset = 0\<rparr>]\<rparr>) p w2 p2
   \<Longrightarrow> frame w p w2 p2"
  by (auto simp: frame_def)

lemma frame_body:
  "frame w (p\<lparr>body := body p @ bs\<rparr>) w2 p2 \<Longrightarrow> frame w p w2 p2"
  by (auto simp: frame_def)

lemma frame_nested:
  "frame (w\<lparr>depth := depth w - 1\<rparr>) p w2 p2 \<Longrightarrow> frame w p (w2\<lparr>depth := depth w2 + 1\<rparr>) p2"
  by (auto simp: frame_def)

lemma wrap_Inr: "wrap s r = Inr v \<longleftrightarrow> r = Inr v"
  by (auto simp: wrap_def split: sum.splits fault.splits)

lemma frame_nested_step:
  "frame (w\<lparr>fields' := fields' w @ [\<lparr>fm_Len = n, fm_Nulls = k, fm_Offset = 0\<rparr>], depth := depth w - 1\<rparr>)
         (p\<lparr>body := body p @ bs\<rparr>) w2 p2
   \<Longrightarrow> frame w p (w2\<lparr>depth := depth w2 + 1\<rparr>) p2"
  by (auto simp: frame_def)

lemma visit_frame:
  "visit K w p arr = Inr (w', p') \<Longrightarrow> frame w p w' p'"
  "visit_fields K w p cs = Inr (w', p') \<Longrightarrow> frame w p w' p'"
proof (induction K w p arr and K w p cs arbitrary: w' p' and w' p' rule: visit_visit_fields.induct)
  case (1 K w p arr)
  note IHa = "1.IH"(1,2)[simplified]
  note IHb = "1.IH"(3-6)[OF _ _ _ _ refl _ _ refl, simplified]
  from "1.prems" show ?case
    apply (subst (asm) visit.simps)
    apply (cases "DataType arr")
    apply (simp_all add: wrap_Inr Let_def is_extension_def is_dictionary_def split: if_splits sum.splits prod.splits)
    subgoal by (auto simp: frame_def)
    subgoal by (auto simp: frame_def)
    subgoal by (auto simp: frame_def)
    subgoal by (auto simp: frame_def)
    subgoal by (auto simp: frame_def)
    subgoal by clarsimp (rule frame_nested_step, rule IHb(1), simp_all add: is_extension_def is_dictionary_def)
    subgoal by clarsimp (rule frame_nested_step, rule IHb(2), simp_all add: is_extension_def is_dictionary_def wrap_Inr)
    subgoal by clarsimp (rule frame_nested_step, rule IHb(3), simp_all add: is_extension_def is_dictionary_def wrap_Inr)
    subgoal by clarsimp (rule frame_nested_step, rule IHb(4), simp_all add: is_extension_def is_dictionary_def wrap_Inr)
    subgoal using IHa(2) by (simp add: is_extension_def is_dictionary_def)
    subgoal using IHa(1) by (simp add: is_extension_def is_dictionary_def)
    done
next
  case (2 K w p)
  then show ?case by (simp add: frame_refl)
next
  case (3 K w p c cs)
  from "3.prems" obtain a b where v: "visit K w p c = Inr (a, b)"
    and vf: "visit_fields K a b cs = Inr (w', p')"
    by (auto simp: wrap_Inr split: sum.splits)
  have "frame w p a b" by (rule "3.IH"(1)[OF v])
  moreover have "frame a b w' p'"
    by (rule "3.IH"(2)[OF _ refl vf]) (simp add: wrap_Inr v)
  ultimately show ?case by (rule frame_trans)
qed

lemma encode_columns_frame:
  "encode_columns K w p cols = Inr (w', p') \<Longrightarrow> frame w p w' p'"
proof (induction cols arbitrary: w p)
  case Nil
  then show ?case by (simp add: frame_refl)
next
  case (Cons c cols)
  from Cons.prems obtain a b where v: "visit K w p c = Inr (a, b)"
    and vf: "encode_columns K a b cols = Inr (w', p')"
    by (auto simp: wrap_Inr split: sum.splits)
  from visit_frame(1)[OF v] Cons.IH[OF vf] show ?case by (rule frame_trans)
qed

lemma CeilByte64_mod: "CeilByte64 n mod 8 = 0"
  by (simp add: CeilByte64_def)

lemma CeilByte64_ge: "n \<le> CeilByte64 n"
  unfolding CeilByte64_def by presburger

lemma CeilByte64_0: "CeilByte64 0 = 0"
  by (simp add: CeilByte64_def)

lemma buffer_layout_props:
  "buffer_layout off bufs = (ms, off') \<Longrightarrow> off mod 8 = 0 \<Longrightarrow>
     length ms = length bufs
     \<and> (\<forall>i < length bufs. bm_Offset (ms ! i) mod 8 = 0
            \<and> bm_Len (ms ! i) = buf_len (bufs ! i)
            \<and> bm_Offset (ms ! i) = off + sum_list (map (\<lambda>b. CeilByte64 (buf_len b)) (take i bufs)))
     \<and> off' = off + sum_list (map (\<lambda>b. CeilByte64 (buf_len b)) bufs)
     \<and> off' mod 8 = 0"
proof (induction bufs arbitrary: off ms)
  case Nil
  then show ?case by simp
next
  case (Cons b bufs)
  let ?next = "off + CeilByte64 (buf_len b)"
  from Cons.prems(1) obtain ms' where
    rec: "buffer_layout ?next bufs = (ms', off')"
    and ms: "ms = \<lparr>bm_Offset = off, bm_Len = buf_len b\<rparr> # ms'"
    by (cases b) (auto simp: buf_len_def CeilByte64_0 Let_def split: prod.splits)
  have al: "?next mod 8 = 0"
    using Cons.prems(2) CeilByte64_mod[of "buf_len b"] by presburger
  note IH = Cons.IH[OF rec al]
  show ?case
  proof (intro conjI allI impI)
    show "length ms = length (b # bufs)" using IH ms by simp
  next
    fix i assume i: "i < length (b # bufs)"
    show "bm_Offset (ms ! i) mod 8 = 0"
      using IH ms i Cons.prems(2) by (cases i) auto
    show "bm_Len (ms ! i) = buf_len ((b # bufs) ! i)"
      using IH ms i by (cases i) auto
    show "bm_Offset (ms ! i) = off + sum_list (map (\<lambda>b. CeilByte64 (buf_len b)) (take i (b # bufs)))"
      using IH ms i by (cases i) auto
  next
    show "off' = off + sum_list (map (\<lambda>b. CeilByte64 (buf_len b)) (b # bufs))"
      using IH by simp
    show "off' mod 8 = 0" using IH by blast
  qed
qed


section \<open>Buffer layout of an encoded payload\<close>

text \<open>
  Claim C5. In every payload that \<^verbatim>\<open>recordEncoder.encode\<close> returns, there is one
  buffer-metadata entry per body buffer; each entry's offset is a multiple of 8 and its
  length is the unpadded length of the buffer; each offset is the previous one advanced
  by the buffer length plus the padding to the next 8-byte boundary, so offsets do not
  decrease; the body size is the sum of the padded buffer lengths and a multiple of 8.
  The encoder's \<^verbatim>\<open>start\<close> is the frame of reference of the offsets; writer.go sets it
  to 0 before every call of \<^verbatim>\<open>encode\<close> (\<^verbatim>\<open>reset\<close>, \<^verbatim>\<open>dictEncoder.Encode\<close>).
\<close>

theorem encode_buffer_layout:
  assumes "encode K gc e p rec = Inr (e', p')" and "start e mod 8 = 0"
  shows "length (meta e') = length (body p')
       \<and> (\<forall>i < length (body p').
             bm_Offset (meta e' ! i) mod 8 = 0
           \<and> bm_Len (meta e' ! i) = buf_len (body p' ! i)
           \<and> bm_Offset (meta e' ! i)
               = start e + sum_list (map (\<lambda>b. CeilByte64 (buf_len b)) (take i (body p'))))
       \<and> (\<forall>i. Suc i < length (body p') \<longrightarrow>
             bm_Offset (meta e' ! i) \<le> bm_Offset (meta e' ! Suc i)
           \<and> bm_Offset (meta e' ! Suc i)
               = bm_Offset (meta e' ! i) + bm_Len (meta e' ! i)
                 + (CeilByte64 (bm_Len (meta e' ! i)) - bm_Len (meta e' ! i)))
       \<and> psize p' = sum_list (map (\<lambda>b. CeilByte64 (buf_len b)) (body p'))
       \<and> psize p' mod 8 = 0"
proof -
  from assms(1) obtain e1 p1 p2 ms off where
    cols: "encode_columns K e p (Columns rec) = Inr (e1, p1)"
    and lay: "buffer_layout (start e1) (body p2) = (ms, off)"
    and e': "e' = e1\<lparr>meta := ms\<rparr>"
    and p': "p' = p2\<lparr>psize := off - start e1\<rparr>"
    by (auto simp: encode_def Let_def split: sum.splits prod.splits if_splits)
  have st: "start e1 = start e"
    using encode_columns_frame[OF cols] by (simp add: frame_def)
  have al: "start e1 mod 8 = 0" using st assms(2) by simp
  note L = buffer_layout_props[OF lay al, unfolded st]
  have body: "body p' = body p2" and meta: "meta e' = ms" and sz: "psize p' = off - start e1"
    using e' p' by simp_all
  have len: "length ms = length (body p2)" using L by blast
  have ent: "\<And>i. i < length (body p2) \<Longrightarrow> bm_Offset (ms ! i) mod 8 = 0
       \<and> bm_Len (ms ! i) = buf_len (body p2 ! i)
       \<and> bm_Offset (ms ! i) = start e + sum_list (map (\<lambda>b. CeilByte64 (buf_len b)) (take i (body p2)))"
    using L by blast
  have tot: "off = start e + sum_list (map (\<lambda>b. CeilByte64 (buf_len b)) (body p2))"
    using L by blast
  have offm: "off mod 8 = 0" using L by blast
  have step: "bm_Offset (ms ! i) \<le> bm_Offset (ms ! Suc i)
       \<and> bm_Offset (ms ! Suc i) = bm_Offset (ms ! i) + bm_Len (ms ! i)
            + (CeilByte64 (bm_Len (ms ! i)) - bm_Len (ms ! i))"
    if i: "Suc i < length (body p2)" for i
  proof -
    from i have i': "i < length (body p2)" by simp
    have "take (Suc i) (body p2) = take i (body p2) @ [body p2 ! i]"
      using i' by (simp add: take_Suc_conv_app_nth)
    then have "bm_Offset (ms ! Suc i) = bm_Offset (ms ! i) + CeilByte64 (buf_len (body p2 ! i))"
      using ent[OF i] ent[OF i'] by simp
    moreover have "0 \<le> buf_len (body p2 ! i)"
      by (simp add: buf_len_def split: option.splits)
    ultimately show ?thesis
      using ent[OF i'] CeilByte64_ge[of "buf_len (body p2 ! i)"] by simp
  qed
  have m8: "psize p' mod 8 = 0"
    using sz offm al by presburger
  have total: "psize p' = sum_list (map (\<lambda>b. CeilByte64 (buf_len b)) (body p2))"
    using sz tot st by simp
  from len ent step total m8 show ?thesis
    unfolding body meta by blast
qed


theorem encode_buffer_layout_witness:
  "encode 64 store_codec ex_encoder (new_Payload MessageRecordBatch) ex_record
     = Inr (ex_encoder\<lparr>fields' := [\<lparr>fm_Len = 3, fm_Nulls = 0, fm_Offset = 0\<rparr>],
                       meta := [\<lparr>bm_Offset = 0, bm_Len = 0\<rparr>, \<lparr>bm_Offset = 0, bm_Len = 12\<rparr>]\<rparr>,
            \<lparr>msg = MessageRecordBatch, pmeta = None,
             body = [None, Some [1, 0, 0, 0, 2, 0, 0, 0, 3, 0, 0, 0]], psize = 16\<rparr>)
   \<and> start ex_encoder mod 8 = 0
   \<and> (16::int) = sum_list (map (\<lambda>b. CeilByte64 (buf_len b))
                     [None, Some [1, 0, 0, 0, 2, 0, 0, 0, 3, 0, 0, 0 :: byte]])
   \<and> (16::int) mod 8 = 0"
proof -
  have h1: "encode 64 store_codec ex_encoder (new_Payload MessageRecordBatch) ex_record
     = Inr (ex_encoder\<lparr>fields' := [\<lparr>fm_Len = 3, fm_Nulls = 0, fm_Offset = 0\<rparr>],
                       meta := [\<lparr>bm_Offset = 0, bm_Len = 0\<rparr>, \<lparr>bm_Offset = 0, bm_Len = 12\<rparr>]\<rparr>,
            \<lparr>msg = MessageRecordBatch, pmeta = None,
             body = [None, Some [1, 0, 0, 0, 2, 0, 0, 0, 3, 0, 0, 0]], psize = 16\<rparr>)"
    by code_simp
  have h2: "start ex_encoder mod 8 = 0"
    by code_simp
  from encode_buffer_layout[OF h1 h2] h1 h2 show ?thesis
    by simp
qed

section \<open>The worker count of the constructors\<close>

text \<open>
  Claim C10. For every configuration, the writer that \<^verbatim>\<open>NewWriter\<close> returns has
  \<^verbatim>\<open>compressNP\<close> 0, whatever the configuration says, so the encoder that \<^verbatim>\<open>Write\<close>
  builds from it compresses the body buffers with the serial loop in the caller; the
  writer that \<^verbatim>\<open>NewWriterWithPayloadWriter\<close> returns has the configured \<^verbatim>\<open>compressNP\<close>.
\<close>

theorem constructors_compressNP:
  "w_compressNP (NewWriter framing s cfg) = 0
   \<and> compressBodyBuffers gc
        (newRecordEncoder 0 kMaxNestingDepth True (w_codec (NewWriter framing s cfg))
           (w_compressNP (NewWriter framing s cfg))) p
      = (map_option Err (fst (compress_serial (gc (cfg_codec cfg)) (body p))),
         p\<lparr>body := snd (compress_serial (gc (cfg_codec cfg)) (body p))\<rparr>)
   \<and> w_compressNP (NewWriterWithPayloadWriter q cfg) = cfg_compressNP cfg"
  by (simp add: NewWriter_def NewWriterWithPayloadWriter_def compressBodyBuffers_def
        newRecordEncoder_def split: prod.splits)

theorem constructors_compressNP_witness:
  "w_compressNP (NewWriter ex_framing ex_sink (ex_config 0 4)) = 0
   \<and> w_compressNP (NewWriterWithPayloadWriter (new_swriter ex_framing ex_sink) (ex_config 0 4)) = 4"
  using constructors_compressNP [of ex_framing ex_sink "ex_config 0 4" store_codec
      "new_Payload MessageRecordBatch" "new_swriter ex_framing ex_sink"]
  by (simp add: ex_config_def)

section \<open>An error of the codec\<close>

text \<open>
  \<^verbatim>\<open>encode\<close> calls \<^verbatim>\<open>w.compressBodyBuffers(p)\<close> and drops its result: with the serial
  loop, whatever the codec returns, \<^verbatim>\<open>encode\<close> goes on to the layout and returns a
  payload once the columns are visited. The check of the body size never panics.
\<close>

lemma buffer_layout_total:
  "buffer_layout off bufs = (ms, off') \<Longrightarrow>
     off' = off + sum_list (map (\<lambda>b. CeilByte64 (buf_len b)) bufs)"
proof (induction bufs arbitrary: off ms)
  case Nil
  then show ?case by simp
next
  case (Cons b bufs)
  from Cons.prems obtain ms' where
    "buffer_layout (off + CeilByte64 (buf_len b)) bufs = (ms', off')"
    by (cases b) (auto simp: buf_len_def CeilByte64_0 Let_def split: prod.splits)
  from Cons.IH[OF this] show ?case by simp
qed

lemma sum_CeilByte64_mod: "sum_list (map (\<lambda>b. CeilByte64 (buf_len b)) bufs) mod 8 = 0"
proof (induction bufs)
  case Nil
  show ?case by simp
next
  case (Cons b bufs)
  then show ?case
    using CeilByte64_mod[of "buf_len b"] by (simp add: mod_add_eq[symmetric])
qed

lemma encode_serial_returns:
  assumes "compressNP e \<le> 1"
    and "encode_columns K e p (Columns rec) = Inr (e1, p1)"
  shows "\<exists>e' p'. encode K gc e p rec = Inr (e', p')"
proof -
  have np: "compressNP e1 \<le> 1"
    using encode_columns_frame[OF assms(2)] assms(1) by (simp add: frame_def)
  obtain r p2 where c: "(if codec e1 \<noteq> - 1 then compressBodyBuffers gc e1 p1 else (None, p1)) = (r, p2)"
    by (cases "if codec e1 \<noteq> - 1 then compressBodyBuffers gc e1 p1 else (None, p1)") auto
  have r: "r \<noteq> Some Deadlock"
    using c np by (auto simp: compressBodyBuffers_def split: if_splits prod.splits)
  obtain ms off where l: "buffer_layout (start e1) (body p2) = (ms, off)"
    by (cases "buffer_layout (start e1) (body p2)") auto
  have "(off - start e1) mod 8 = 0"
    using buffer_layout_total[OF l] sum_CeilByte64_mod[of "body p2"] by simp
  then show ?thesis
    using assms(2) c r l by (simp add: encode_def IsMultipleOf8_def)
qed

text \<open>
  Claim C4 says that an error of the codec on a body buffer aborts the write and
  reaches the caller. The code does not do so: with the codec LZ4 (0) failing on every
  buffer, writing the record of scenario (a) through a writer of \<^verbatim>\<open>NewWriter\<close> returns
  \<^verbatim>\<open>nil\<close>, and the sink has received, after the schema message, the record batch with
  the values buffer uncompressed.
\<close>

theorem codec_error_is_dropped:
  "fst (Write (ex_env failing_codec []) (NewWriter ex_framing ex_sink (ex_config 0 0))
          ex_record (\<lambda>a. 0)) = None
   \<and> map_option (\<lambda>q. out (sw_w (pw_state q)))
        (w_pw (fst (snd (Write (ex_env failing_codec []) (NewWriter ex_framing ex_sink (ex_config 0 0))
          ex_record (\<lambda>a. 0)))))
      = Some [1, 3, 1, 0, 0, 0, 2, 0, 0, 0, 3, 0, 0, 0]"
  by code_simp

section \<open>The dictionary tracker\<close>

lemma dict_decision_skip:
  "covered approx lwd pair \<Longrightarrow>
     dict_decision approx ff ed (map_of lwd (fst pair)) (snd pair) = Inr None"
  by (auto simp: covered_def dict_decision_def Let_def split: option.splits)

lemma dict_decision_None:
  "dict_decision approx ff ed (map_of lwd (fst pair)) (snd pair) = Inr None \<Longrightarrow> covered approx lwd pair"
  by (auto simp: covered_def dict_decision_def Let_def bind_def split: option.splits if_splits sum.splits)

lemma dict_step_skip:
  "covered approx (lastWrittenDicts t) pair \<Longrightarrow>
     dict_step K gc approx ff ed pair t = (None, t\<lparr>encoder := reset (encoder t)\<rparr>)"
  by (simp add: dict_step_def Let_def dict_decision_skip)

lemma dict_step_covers:
  assumes "dict_step K gc approx ff ed pair t = (None, t')"
  shows "covered approx (lastWrittenDicts t') pair"
    and "k \<noteq> fst pair \<Longrightarrow> map_of (lastWrittenDicts t') k = map_of (lastWrittenDicts t) k"
  using assms
  by (auto simp: dict_step_def Let_def covered_def update_conv' dest!: dict_decision_None
      split: sum.splits option.splits if_splits prod.splits)


lemma dict_loop_other:
  "dict_loop K gc approx ff ed pairs t = (None, t') \<Longrightarrow> k \<notin> fst ` set pairs \<Longrightarrow>
     map_of (lastWrittenDicts t') k = map_of (lastWrittenDicts t) k"
proof (induction pairs arbitrary: t)
  case Nil
  then show ?case by simp
next
  case (Cons pair pairs)
  from Cons.prems(1) obtain t1 where
    s: "dict_step K gc approx ff ed pair t = (None, t1)"
    and l: "dict_loop K gc approx ff ed pairs t1 = (None, t')"
    by (auto split: prod.splits option.splits)
  from Cons.prems(2) have "k \<noteq> fst pair" and "k \<notin> fst ` set pairs" by auto
  with Cons.IH[OF l] dict_step_covers(2)[OF s] show ?case by simp
qed

lemma covered_cong:
  "map_of lwd' (fst pair) = map_of lwd (fst pair) \<Longrightarrow> covered approx lwd' pair = covered approx lwd pair"
  by (simp add: covered_def)

lemma dict_loop_covers:
  "dict_loop K gc approx ff ed pairs t = (None, t') \<Longrightarrow> distinct (map fst pairs) \<Longrightarrow>
     \<forall>pair \<in> set pairs. covered approx (lastWrittenDicts t') pair"
proof (induction pairs arbitrary: t)
  case Nil
  then show ?case by simp
next
  case (Cons pair pairs)
  from Cons.prems(1) obtain t1 where
    s: "dict_step K gc approx ff ed pair t = (None, t1)"
    and l: "dict_loop K gc approx ff ed pairs t1 = (None, t')"
    by (auto split: prod.splits option.splits)
  from Cons.prems(2) have d: "distinct (map fst pairs)" and n: "fst pair \<notin> fst ` set pairs"
    by auto
  have "covered approx (lastWrittenDicts t') pair"
    using dict_step_covers(1)[OF s] covered_cong[OF dict_loop_other[OF l n]] by simp
  with Cons.IH[OF l d] show ?case by simp
qed

lemma dict_loop_skips:
  "\<forall>pair \<in> set pairs. covered approx (lastWrittenDicts t) pair \<Longrightarrow>
     \<exists>t'. dict_loop K gc approx ff ed pairs t = (None, t')
        \<and> pw t' = pw t \<and> lastWrittenDicts t' = lastWrittenDicts t \<and> refs t' = refs t"
proof (induction pairs arbitrary: t)
  case Nil
  then show ?case by simp
next
  case (Cons pair pairs)
  let ?t1 = "t\<lparr>encoder := reset (encoder t)\<rparr>"
  have s: "dict_step K gc approx ff ed pair t = (None, ?t1)"
    using Cons.prems by (simp add: dict_step_skip)
  have "\<forall>pair \<in> set pairs. covered approx (lastWrittenDicts ?t1) pair"
    using Cons.prems by simp
  from Cons.IH[OF this] s show ?case by auto
qed

text \<open>
  Claim C2. When a dictionary was written before for the id, and the new dictionary is
  the same \<^verbatim>\<open>Data()\<close> or has the same length and is approximately equal (NaNs equal),
  the iteration for it emits nothing and leaves the map as it is. And when a dictionary
  pass over a record has succeeded, a second pass over the same record (the same
  dictionaries, one per id, as \<^verbatim>\<open>CollectDictionaries\<close> gives them for the fields of a
  record) emits nothing: the payload writer and the map stay as the first pass left them.
\<close>

theorem dictionary_skip:
  "(prior t k = Some lastD
      \<and> (Data lastD = Data d \<or> (Len (Arr lastD) = Len (Arr d) \<and> approx (Arr lastD) (Arr d)))
    \<longrightarrow> dict_step K gc approx ff ed (k, d) t = (None, t\<lparr>encoder := reset (encoder t)\<rparr>))
   \<and> (CollectDictionaries E batch m = Inr pairs \<and> distinct (map fst pairs)
      \<and> writeDictionaryPayloads E batch ff ed m t0 = (None, t1)
    \<longrightarrow> (\<exists>t2. writeDictionaryPayloads E batch ff ed m t1 = (None, t2)
            \<and> pw t2 = pw t1 \<and> lastWrittenDicts t2 = lastWrittenDicts t1))"
proof (intro conjI impI)
  assume "prior t k = Some lastD
      \<and> (Data lastD = Data d \<or> (Len (Arr lastD) = Len (Arr d) \<and> approx (Arr lastD) (Arr d)))"
  then have "covered approx (lastWrittenDicts t) (k, d)"
    by (auto simp: covered_def prior_def)
  then show "dict_step K gc approx ff ed (k, d) t = (None, t\<lparr>encoder := reset (encoder t)\<rparr>)"
    by (rule dict_step_skip)
next
  assume a: "CollectDictionaries E batch m = Inr pairs \<and> distinct (map fst pairs)
      \<and> writeDictionaryPayloads E batch ff ed m t0 = (None, t1)"
  then have c: "CollectDictionaries E batch m = Inr pairs" and d: "distinct (map fst pairs)"
    and w: "writeDictionaryPayloads E batch ff ed m t0 = (None, t1)"
    by simp_all
  let ?loop = "dict_loop (kArrowAlignment E) (getCompressor E) (ApproxEqual E) ff ed pairs"
  from w c obtain t1' where l: "?loop t0 = (None, t1')"
    and t1: "t1 = t1'\<lparr>refs := fold (\<lambda>d. Release (snd d)) pairs (refs t1')\<rparr>"
    by (auto simp: writeDictionaryPayloads_def split: prod.splits)
  have "\<forall>pair \<in> set pairs. covered (ApproxEqual E) (lastWrittenDicts t1) pair"
    using dict_loop_covers[OF l d] t1 by simp
  from dict_loop_skips[OF this, of "kArrowAlignment E" "getCompressor E" ff ed]
  obtain t' where "?loop t1 = (None, t')" "pw t' = pw t1" "lastWrittenDicts t' = lastWrittenDicts t1"
    by blast
  then show "\<exists>t2. writeDictionaryPayloads E batch ff ed m t1 = (None, t2)
            \<and> pw t2 = pw t1 \<and> lastWrittenDicts t2 = lastWrittenDicts t1"
    using c by (simp add: writeDictionaryPayloads_def)
qed

theorem dictionary_skip_witness:
  "prior (ex_tracker [(0, ex_dict_12)]) 0 = Some ex_dict_12
   \<and> Len (Arr ex_dict_12) = Len (Arr ex_dict_12_copy)
   \<and> ex_approx (Arr ex_dict_12) (Arr ex_dict_12_copy)
   \<and> map_option pw_state
        (pw (snd (dict_step 64 store_codec ex_approx False True (0, ex_dict_12_copy)
                    (ex_tracker [(0, ex_dict_12)])))) = Some []
   \<and> CollectDictionaries (ex_env store_codec [(0, ex_dict_12)]) ex_record None
        = Inr [(0, ex_dict_12)]
   \<and> distinct (map fst [(0 :: int, ex_dict_12)])
   \<and> fst (writeDictionaryPayloads (ex_env store_codec [(0, ex_dict_12)]) ex_record False True None
             (ex_tracker [])) = None
   \<and> (\<exists>t2. writeDictionaryPayloads (ex_env store_codec [(0, ex_dict_12)]) ex_record False True None
               (snd (writeDictionaryPayloads (ex_env store_codec [(0, ex_dict_12)]) ex_record
                       False True None (ex_tracker []))) = (None, t2)
           \<and> pw t2 = pw (snd (writeDictionaryPayloads (ex_env store_codec [(0, ex_dict_12)])
                                  ex_record False True None (ex_tracker []))))"
proof -
  let ?E = "ex_env store_codec [(0, ex_dict_12)]"
  let ?t1 = "snd (writeDictionaryPayloads ?E ex_record False True None (ex_tracker []))"
  have h1: "prior (ex_tracker [(0, ex_dict_12)]) 0 = Some ex_dict_12"
    by code_simp
  have h2: "Len (Arr ex_dict_12) = Len (Arr ex_dict_12_copy)
            \<and> ex_approx (Arr ex_dict_12) (Arr ex_dict_12_copy)"
    by code_simp
  have h3: "CollectDictionaries ?E ex_record None = Inr [(0, ex_dict_12)]"
    by (simp add: ex_env_def)
  have h4: "distinct (map fst [(0 :: int, ex_dict_12)])"
    by simp
  have h5: "fst (writeDictionaryPayloads ?E ex_record False True None (ex_tracker [])) = None"
    by code_simp
  then have h5': "writeDictionaryPayloads ?E ex_record False True None (ex_tracker []) = (None, ?t1)"
    by (metis prod.collapse)
  note T = dictionary_skip [of "ex_tracker [(0, ex_dict_12)]" 0 ex_dict_12 ex_dict_12_copy ex_approx
      64 store_codec False True ?E ex_record None "[(0, ex_dict_12)]" "ex_tracker []" ?t1]
  have a: "dict_step 64 store_codec ex_approx False True (0, ex_dict_12_copy)
             (ex_tracker [(0, ex_dict_12)])
           = (None, (ex_tracker [(0, ex_dict_12)])
                      \<lparr>encoder := reset (encoder (ex_tracker [(0, ex_dict_12)]))\<rparr>)"
    using T h1 h2 by blast
  have b: "\<exists>t2. writeDictionaryPayloads ?E ex_record False True None ?t1 = (None, t2)
            \<and> pw t2 = pw ?t1"
    using T h3 h4 h5' by blast
  have c: "map_option pw_state
        (pw (snd (dict_step 64 store_codec ex_approx False True (0, ex_dict_12_copy)
                    (ex_tracker [(0, ex_dict_12)])))) = Some []"
    unfolding a by (simp add: ex_tracker_def recorder_def)
  from h1 h2 h3 h4 h5 b c show ?thesis by blast
qed

section \<open>Dictionary replacement in the file format\<close>

lemma dict_loop_append:
  "dict_loop K gc approx ff ed pre t0 = (None, t) \<Longrightarrow>
     dict_loop K gc approx ff ed (pre @ post) t0 = dict_loop K gc approx ff ed post t"
proof (induction pre arbitrary: t0)
  case Nil
  then show ?case by simp
next
  case (Cons pair pre)
  from Cons.prems obtain t1 where
    s: "dict_step K gc approx ff ed pair t0 = (None, t1)"
    and l: "dict_loop K gc approx ff ed pre t1 = (None, t)"
    by (auto split: prod.splits option.splits)
  from Cons.IH[OF l] s show ?case by simp
qed

lemma dict_step_replacement:
  assumes "prior t k = Some lastD" and "Data lastD \<noteq> Data d"
    and "\<not> (Len (Arr lastD) = Len (Arr d) \<and> approx (Arr lastD) (Arr d))"
  shows "dict_step K gc approx True ed (k, d) t
           = (Some (Err errDictReplacement), t\<lparr>encoder := reset (encoder t)\<rparr>)"
  using assms by (auto simp: dict_step_def dict_decision_def prior_def Let_def)

text \<open>
  Claim C8. In the file format, when the loop reaches a dictionary whose id has a last
  written dictionary that is neither the same \<^verbatim>\<open>Data()\<close> nor equal in length and
  approximately equal, \<^verbatim>\<open>writeDictionaryPayloads\<close> returns the replacement error; the
  payload writer and the map are as the dictionaries before it left them, so nothing is
  emitted for it or after it.
\<close>

theorem dictionary_replacement_in_file_format:
  assumes "prior t k = Some lastD" and "Data lastD \<noteq> Data d"
    and "\<not> (Len (Arr lastD) = Len (Arr d) \<and> approx (Arr lastD) (Arr d))"
    and "dict_loop K gc approx True ed pre t0 = (None, t)"
  shows "dict_loop K gc approx True ed (pre @ (k, d) # post) t0
           = (Some (Err errDictReplacement), t\<lparr>encoder := reset (encoder t)\<rparr>)
       \<and> pw (snd (dict_loop K gc approx True ed (pre @ (k, d) # post) t0)) = pw t
       \<and> lastWrittenDicts (snd (dict_loop K gc approx True ed (pre @ (k, d) # post) t0))
           = lastWrittenDicts t"
proof -
  have "dict_step K gc approx True ed (k, d) t
           = (Some (Err errDictReplacement), t\<lparr>encoder := reset (encoder t)\<rparr>)"
    using assms(1-3) by (rule dict_step_replacement)
  then show ?thesis
    using dict_loop_append[OF assms(4), of "(k, d) # post"] by simp
qed

theorem dictionary_replacement_in_file_format_witness:
  "prior (ex_tracker [(0, ex_dict_12)]) 0 = Some ex_dict_12
   \<and> Data ex_dict_12 \<noteq> Data ex_dict_123
   \<and> Len (Arr ex_dict_12) \<noteq> Len (Arr ex_dict_123)
   \<and> fst (dict_loop 64 store_codec ex_approx True True [(0, ex_dict_123)]
             (ex_tracker [(0, ex_dict_12)])) = Some (Err errDictReplacement)
   \<and> map_option pw_state
        (pw (snd (dict_loop 64 store_codec ex_approx True True [(0, ex_dict_123)]
                    (ex_tracker [(0, ex_dict_12)])))) = Some []"
proof -
  have h1: "prior (ex_tracker [(0, ex_dict_12)]) 0 = Some ex_dict_12"
    by code_simp
  have h2: "Data ex_dict_12 \<noteq> Data ex_dict_123"
    by code_simp
  have h3: "Len (Arr ex_dict_12) \<noteq> Len (Arr ex_dict_123)"
    by code_simp
  then have h3': "\<not> (Len (Arr ex_dict_12) = Len (Arr ex_dict_123)
                    \<and> ex_approx (Arr ex_dict_12) (Arr ex_dict_123))"
    by simp
  have h4: "dict_loop 64 store_codec ex_approx True True [] (ex_tracker [(0, ex_dict_12)])
              = (None, ex_tracker [(0, ex_dict_12)])"
    by simp
  from dictionary_replacement_in_file_format [OF h1 h2 h3' h4, of "[]"] h1 h2 h3
  show ?thesis
    by (simp add: ex_tracker_def recorder_def)
qed

section \<open>Dictionary deltas\<close>







section \<open>Closing the writer\<close>

lemma swriter_Close_unlimited:
  "limit (sw_w sw) = None \<Longrightarrow>
     swriter_Close sw = (None, sw\<lparr>sw_w := (sw_w sw)\<lparr>out := out (sw_w sw) @ kEOS\<rparr>,
                                   sw_pos := sw_pos sw + 8\<rparr>)"
  by (simp add: swriter_Close_def swriter_Write_def sink_Write_def kEOS_def)

lemma swriter_WritePayload_unlimited:
  "limit (sw_w sw) = None \<Longrightarrow>
     swriter_WritePayload framing sw p
       = (None, sw\<lparr>sw_w := (sw_w sw)\<lparr>out := out (sw_w sw) @ framing p\<rparr>,
                     sw_pos := sw_pos sw + int (length (framing p))\<rparr>)"
  by (simp add: swriter_WritePayload_def writeIPCPayload_def swriter_Write_def sink_Write_def)

text \<open>
  Claim C9. \<^verbatim>\<open>Close\<close> on a writer that was never started runs \<^verbatim>\<open>start\<close> first, so the
  Schema payload is emitted, and then closes the payload writer; for the stream writer of
  \<^verbatim>\<open>NewWriter\<close> on a sink that takes the bytes, the sink holds the Schema payload
  followed by four bytes \<open>0xFF\<close> and four zero bytes. \<^verbatim>\<open>Close\<close> on a started writer
  closes the payload writer and releases every dictionary of \<^verbatim>\<open>lastWrittenDicts\<close> once
  (a writer started by \<^verbatim>\<open>Close\<close> holds none). After a \<^verbatim>\<open>Close\<close> that returned \<^verbatim>\<open>nil\<close>,
  \<^verbatim>\<open>Close\<close> again returns \<^verbatim>\<open>nil\<close> and changes nothing.
\<close>

theorem close_writer:
  "(limit s = None \<longrightarrow>
      (\<exists>wr' q'. Close (NewWriter framing s cfg) rc = (None, wr', rc, Some q')
         \<and> out (sw_w (pw_state q'))
             = out s @ framing (schema_payload (cfg_schema cfg)) @ [0xFF, 0xFF, 0xFF, 0xFF, 0, 0, 0, 0]
         \<and> started wr' \<and> w_pw wr' = None
         \<and> Close wr' rc = (None, wr', rc, None)))
   \<and> (\<not> started wr \<and> w_pw wr = Some q
        \<and> WritePayload q (schema_payload (w_schema wr)) = (None, q1) \<and> ClosePW q1 = (None, q2) \<longrightarrow>
      (\<exists>wr'. Close wr rc = (None, wr', rc, Some q2)
         \<and> started wr' \<and> w_pw wr' = None \<and> w_lastWrittenDicts wr' = []
         \<and> Close wr' rc = (None, wr', rc, None)))
   \<and> (started wr \<and> w_pw wr = Some q \<and> ClosePW q = (None, q2) \<longrightarrow>
      Close wr rc = (None, wr\<lparr>w_pw := None\<rparr>,
                     fold (\<lambda>d. Release (snd d)) (w_lastWrittenDicts wr) rc, Some q2)
      \<and> Close (wr\<lparr>w_pw := None\<rparr>) rc' = (None, wr\<lparr>w_pw := None\<rparr>, rc', None))"
proof (intro conjI impI)
  assume l: "limit s = None"
  show "\<exists>wr' q'. Close (NewWriter framing s cfg) rc = (None, wr', rc, Some q')
         \<and> out (sw_w (pw_state q'))
             = out s @ framing (schema_payload (cfg_schema cfg)) @ [0xFF, 0xFF, 0xFF, 0xFF, 0, 0, 0, 0]
         \<and> started wr' \<and> w_pw wr' = None
         \<and> Close wr' rc = (None, wr', rc, None)"
    using l
    by (simp add: Close_def NewWriter_def Writer_start_def payloadFromSchema_def new_Payload_def
        new_swriter_def WritePayload_def ClosePW_def swriter_Close_unlimited
        swriter_WritePayload_unlimited schema_payload_def kEOS_def)
next
  assume a: "\<not> started wr \<and> w_pw wr = Some q
        \<and> WritePayload q (schema_payload (w_schema wr)) = (None, q1) \<and> ClosePW q1 = (None, q2)"
  then show "\<exists>wr'. Close wr rc = (None, wr', rc, Some q2)
         \<and> started wr' \<and> w_pw wr' = None \<and> w_lastWrittenDicts wr' = []
         \<and> Close wr' rc = (None, wr', rc, None)"
    by (simp add: Close_def Writer_start_def payloadFromSchema_def new_Payload_def
        schema_payload_def)
next
  assume a: "started wr \<and> w_pw wr = Some q \<and> ClosePW q = (None, q2)"
  then show "Close wr rc = (None, wr\<lparr>w_pw := None\<rparr>,
                     fold (\<lambda>d. Release (snd d)) (w_lastWrittenDicts wr) rc, Some q2)"
    by (simp add: Close_def)
  from a show "Close (wr\<lparr>w_pw := None\<rparr>) rc' = (None, wr\<lparr>w_pw := None\<rparr>, rc', None)"
    by (simp add: Close_def)
qed


theorem close_writer_witness:
  "limit ex_sink = None
   \<and> (\<exists>wr' q'. Close (NewWriter ex_framing ex_sink (ex_config (- 1) 0)) (\<lambda>a. 1)
                  = (None, wr', (\<lambda>a. 1), Some q')
         \<and> out (sw_w (pw_state q')) = [1, 0xFF, 0xFF, 0xFF, 0xFF, 0, 0, 0, 0]
         \<and> Close wr' (\<lambda>a. 1) = (None, wr', (\<lambda>a. 1), None))
   \<and> \<not> started (NewWriterWithPayloadWriter recorder (ex_config (- 1) 0))
   \<and> w_pw (NewWriterWithPayloadWriter recorder (ex_config (- 1) 0)) = Some recorder
   \<and> WritePayload recorder (schema_payload (cfg_schema (ex_config (- 1) 0)))
        = (None, recorder\<lparr>pw_state := [schema_payload (cfg_schema (ex_config (- 1) 0))]\<rparr>)
   \<and> ClosePW (recorder\<lparr>pw_state := [schema_payload (cfg_schema (ex_config (- 1) 0))]\<rparr>)
        = (None, recorder\<lparr>pw_state := [schema_payload (cfg_schema (ex_config (- 1) 0))]\<rparr>)
   \<and> (\<exists>wr'. Close (NewWriterWithPayloadWriter recorder (ex_config (- 1) 0)) (\<lambda>a. 1)
                = (None, wr', (\<lambda>a. 1),
                   Some (recorder\<lparr>pw_state := [schema_payload (cfg_schema (ex_config (- 1) 0))]\<rparr>))
         \<and> Close wr' (\<lambda>a. 1) = (None, wr', (\<lambda>a. 1), None))
   \<and> started ex_started \<and> w_pw ex_started = Some recorder \<and> ClosePW recorder = (None, recorder)
   \<and> fst (Close ex_started (\<lambda>a. 1)) = None
   \<and> fst (snd (snd (Close ex_started (\<lambda>a. 1)))) (Data ex_dict_12) = 0"
proof -
  let ?cfg = "ex_config (- 1) 0"
  let ?wr = "NewWriterWithPayloadWriter recorder ?cfg"
  let ?q1 = "recorder\<lparr>pw_state := [schema_payload (cfg_schema ?cfg)]\<rparr>"
  note T = close_writer [of ex_sink ex_framing ?cfg "\<lambda>a. 1" ?wr recorder ?q1 ?q1 "\<lambda>a. 1"]
  note T3 = close_writer [of ex_sink ex_framing ?cfg "\<lambda>a. 1" ex_started recorder ?q1 recorder "\<lambda>a. 1"]
  have h1: "limit ex_sink = None"
    by (simp add: ex_sink_def)
  have h2: "\<not> started ?wr \<and> w_pw ?wr = Some recorder"
    by (simp add: NewWriterWithPayloadWriter_def)
  have sw: "w_schema ?wr = cfg_schema ?cfg"
    by (simp add: NewWriterWithPayloadWriter_def)
  have h3: "WritePayload recorder (schema_payload (cfg_schema ?cfg)) = (None, ?q1)"
    by (simp add: WritePayload_def recorder_def)
  have h4: "ClosePW ?q1 = (None, ?q1)"
    by (simp add: ClosePW_def recorder_def)
  have h5: "started ex_started \<and> w_pw ex_started = Some recorder"
    by (simp add: ex_started_def NewWriterWithPayloadWriter_def)
  have h6: "ClosePW recorder = (None, recorder)"
    by (simp add: ClosePW_def recorder_def)
  have c1: "\<exists>wr' q'. Close (NewWriter ex_framing ex_sink ?cfg) (\<lambda>a. 1) = (None, wr', (\<lambda>a. 1), Some q')
         \<and> out (sw_w (pw_state q')) = [1, 0xFF, 0xFF, 0xFF, 0xFF, 0, 0, 0, 0]
         \<and> Close wr' (\<lambda>a. 1) = (None, wr', (\<lambda>a. 1), None)"
    using T h1 by (auto simp: ex_sink_def ex_framing_def schema_payload_def)
  have c2: "\<exists>wr'. Close ?wr (\<lambda>a. 1) = (None, wr', (\<lambda>a. 1), Some ?q1)
         \<and> Close wr' (\<lambda>a. 1) = (None, wr', (\<lambda>a. 1), None)"
    using T h2 h3 h4 sw by auto
  have c3: "Close ex_started (\<lambda>a. 1)
              = (None, ex_started\<lparr>w_pw := None\<rparr>,
                 fold (\<lambda>d. Release (snd d)) (w_lastWrittenDicts ex_started) (\<lambda>a. 1), Some recorder)"
    using T3 h5 h6 by blast
  have c4: "fst (Close ex_started (\<lambda>a. 1)) = None
            \<and> fst (snd (snd (Close ex_started (\<lambda>a. 1)))) (Data ex_dict_12) = 0"
    unfolding c3 by (simp add: ex_started_def Release_def ex_dict_12_def)
  from h1 c1 h2 h3 h4 c2 h5 h6 c4 show ?thesis by blast
qed


end
